theory Spec2Isabelle
  imports Main
begin

section \<open>EKS waiters: data model\<close>

text \<open>
  The embedding follows \<^verbatim>\<open>aws/internal/service/eks/waiter/waiter.go\<close>.
  Go's \<^verbatim>\<open>*string\<close> fields are \<open>string option\<close> (\<open>None\<close> is the nil pointer),
  a pointer to a struct that may be nil is an \<open>option\<close> of the record, and the
  elements of a slice of struct pointers are taken to be non-nil records.
  Time is a natural number of clock ticks.
\<close>

subsection \<open>Status constants of the service API package\<close>

text \<open>
  The constants of package \<^verbatim>\<open>eks\<close> (aws-sdk-go) that the waiters name. The file under
  verification quotes three of the values in its comments ("ACTIVE", "CREATE_FAILED",
  "Successful"); the others are the values the service API package declares.
\<close>

definition ClusterStatusCreating :: string where "ClusterStatusCreating = ''CREATING''"
definition ClusterStatusActive :: string where "ClusterStatusActive = ''ACTIVE''"
definition ClusterStatusDeleting :: string where "ClusterStatusDeleting = ''DELETING''"

definition UpdateStatusInProgress :: string where "UpdateStatusInProgress = ''InProgress''"
definition UpdateStatusFailed :: string where "UpdateStatusFailed = ''Failed''"
definition UpdateStatusCancelled :: string where "UpdateStatusCancelled = ''Cancelled''"
definition UpdateStatusSuccessful :: string where "UpdateStatusSuccessful = ''Successful''"

definition FargateProfileStatusCreating :: string where "FargateProfileStatusCreating = ''CREATING''"
definition FargateProfileStatusActive :: string where "FargateProfileStatusActive = ''ACTIVE''"
definition FargateProfileStatusDeleting :: string where "FargateProfileStatusDeleting = ''DELETING''"

definition NodegroupStatusCreating :: string where "NodegroupStatusCreating = ''CREATING''"
definition NodegroupStatusActive :: string where "NodegroupStatusActive = ''ACTIVE''"
definition NodegroupStatusDeleting :: string where "NodegroupStatusDeleting = ''DELETING''"

definition AddonStatusCreating :: string where "AddonStatusCreating = ''CREATING''"
definition AddonStatusActive :: string where "AddonStatusActive = ''ACTIVE''"
definition AddonStatusCreateFailed :: string where "AddonStatusCreateFailed = ''CREATE_FAILED''"
definition AddonStatusDeleting :: string where "AddonStatusDeleting = ''DELETING''"

definition ErrCodeResourceNotFoundException :: string where
  "ErrCodeResourceNotFoundException = ''ResourceNotFoundException''"

text \<open>Durations in ticks of one second: \<^verbatim>\<open>20 * time.Minute\<close> and \<^verbatim>\<open>40 * time.Minute\<close>.\<close>

definition Minute :: nat where "Minute = 60"
definition EksAddonCreatedTimeout :: nat where "EksAddonCreatedTimeout = 20 * Minute"
definition EksAddonUpdatedTimeout :: nat where "EksAddonUpdatedTimeout = 20 * Minute"
definition EksAddonDeletedTimeout :: nat where "EksAddonDeletedTimeout = 40 * Minute"

subsection \<open>Resource snapshots\<close>

text \<open>
  The payload structs, with the fields the waiters read (\<^verbatim>\<open>Status\<close>, \<^verbatim>\<open>Errors\<close>,
  \<^verbatim>\<open>Health.Issues\<close>) and a name to tell snapshots apart.
\<close>

record Cluster =
  cluster_Name :: "string option"
  cluster_Status :: "string option"

record FargateProfile =
  fargate_Name :: "string option"
  fargate_Status :: "string option"

record Nodegroup =
  nodegroup_Name :: "string option"
  nodegroup_Status :: "string option"

record ErrorDetail =
  ErrorCode :: "string option"
  ErrorMessage :: "string option"

record Update =
  update_Id :: "string option"
  update_Status :: "string option"
  update_Errors :: "ErrorDetail list"

record AddonIssue =
  issue_Code :: "string option"
  issue_Message :: "string option"

record AddonHealth =
  Issues :: "AddonIssue list"

record Addon =
  addon_Name :: "string option"
  addon_Status :: "string option"
  addon_Health :: "AddonHealth option"

text \<open>
  The value of Go's \<^verbatim>\<open>interface{}\<close> that a wait hands back: the dynamic type is the
  constructor, and a type assertion \<^verbatim>\<open>outputRaw.(*eks.Cluster)\<close> is a case distinction
  on it. The nil interface is \<open>None\<close> of \<open>object option\<close>.
\<close>

datatype object =
    ClusterObj Cluster
  | FargateProfileObj FargateProfile
  | NodegroupObj Nodegroup
  | UpdateObj Update
  | AddonObj Addon

subsection \<open>Errors\<close>

text \<open>
  The error values that reach the waiters: a failure of the describe call with its
  service error code, the engine's timeout, unexpected-state and cancellation errors,
  an error built by \<^verbatim>\<open>fmt.Errorf\<close>, and the list built by \<^verbatim>\<open>multierror.Append\<close>.
\<close>

datatype error =
    ProbeError string string
  | TimeoutError "error option" string "string list"
  | UnexpectedStateError "error option" string "string list"
  | CancellationError
  | Errorf string
  | MultiError "error list"

datatype fault = NilDereference

subsection \<open>Strings\<close>

definition newline :: string where "newline = [CHR 0x0A]"
definition tab :: string where "tab = [CHR 0x09]"

text \<open>\<^verbatim>\<open>aws.StringValue\<close>: the string behind the pointer, empty for nil.\<close>

fun StringValue :: "string option \<Rightarrow> string" where
  "StringValue None = []"
| "StringValue (Some s) = s"

text \<open>\<^verbatim>\<open>strings.Join\<close>.\<close>

fun Join :: "string list \<Rightarrow> string \<Rightarrow> string" where
  "Join [] sep = []"
| "Join [x] sep = x"
| "Join (x # y # ys) sep = x @ sep @ Join (y # ys) sep"

text \<open>The verb \<^verbatim>\<open>%d\<close> on a non-negative integer: its decimal digits.\<close>

definition digit :: "nat \<Rightarrow> char" where
  "digit d = ''0123456789'' ! d"

function Itoa :: "nat \<Rightarrow> string" where
  "Itoa n = (if n < 10 then [digit n] else Itoa (n div 10) @ [digit (n mod 10)])"
  by pat_completeness auto
termination
  by (relation "measure id") auto

declare Itoa.simps [simp del]

text \<open>\<^verbatim>\<open>strings.HasPrefix\<close> and \<^verbatim>\<open>strings.Contains\<close>.\<close>

fun HasPrefix :: "string \<Rightarrow> string \<Rightarrow> bool" where
  "HasPrefix s [] = True"
| "HasPrefix [] (p # ps) = False"
| "HasPrefix (c # cs) (p # ps) = (c = p \<and> HasPrefix cs ps)"

fun Contains :: "string \<Rightarrow> string \<Rightarrow> bool" where
  "Contains [] sub = (sub = [])"
| "Contains (c # cs) sub = (HasPrefix (c # cs) sub \<or> Contains cs sub)"


subsection \<open>Rendering and inspecting errors\<close>

text \<open>
  The method \<^verbatim>\<open>Error()\<close> of each error value, after the libraries that declare them.
  A describe-call failure prints its code and message; the list of \<^verbatim>\<open>multierror\<close>
  prints with the library's default list format; the engine's errors print their states
  and, after them, the last error (\<^verbatim>\<open>%s\<close> of a nil error prints \<^verbatim>\<open>%!s(<nil>)\<close>). The
  message of the timeout error leaves out the length of the timeout, which the error
  value here does not carry.
\<close>

fun Error :: "error \<Rightarrow> string" where
  "Error (ProbeError code msg) = code @ '': '' @ msg"
| "Error (TimeoutError lastError lastState expected) =
     ''timeout while waiting for ''
     @ (if expected = [] then ''resource to be gone''
        else ''state to become '' @ [CHR 0x27] @ Join expected '', '' @ [CHR 0x27])
     @ (if lastState = [] then []
        else '' (last state: '' @ [CHR 0x27] @ lastState @ [CHR 0x27] @ '')'')
     @ (case lastError of None \<Rightarrow> [] | Some e \<Rightarrow> '': '' @ Error e)"
| "Error (UnexpectedStateError lastError state expected) =
     ''unexpected state '' @ [CHR 0x27] @ state @ [CHR 0x27]
     @ '', wanted target '' @ [CHR 0x27] @ Join expected '', '' @ [CHR 0x27]
     @ ''. last error: ''
     @ (case lastError of None \<Rightarrow> ''%!s(<nil>)'' | Some e \<Rightarrow> Error e)"
| "Error CancellationError = ''context canceled''"
| "Error (Errorf msg) = msg"
| "Error (MultiError es) =
     (if length es = 1 then ''1 error occurred:'' else Itoa (length es) @ '' errors occurred:'')
     @ newline @ tab @ Join (map (\<lambda>e. ''* '' @ Error e) es) (newline @ tab)
     @ newline @ newline"

text \<open>
  \<^verbatim>\<open>tfawserr.ErrCodeEquals\<close>: the error is a service error with the given code. The
  engine's own errors and the formatted ones carry no service code.
\<close>

fun ErrCodeEquals :: "error option \<Rightarrow> string \<Rightarrow> bool" where
  "ErrCodeEquals (Some (ProbeError c m)) code = (c = code)"
| "ErrCodeEquals e code = False"

text \<open>
  \<^verbatim>\<open>multierror.Append\<close> on a possibly nil \<^verbatim>\<open>*multierror.Error\<close> (\<open>None\<close> is nil) and
  \<^verbatim>\<open>ErrorOrNil\<close>, which is nil for the nil pointer and for an empty list.
\<close>

fun Append :: "error list option \<Rightarrow> error \<Rightarrow> error list option" where
  "Append None e = Some [e]"
| "Append (Some es) e = Some (es @ [e])"

fun ErrorOrNil :: "error list option \<Rightarrow> error option" where
  "ErrorOrNil None = None"
| "ErrorOrNil (Some es) = (if es = [] then None else Some (MultiError es))"

text \<open>
  Modelled from the spec: \<^verbatim>\<open>tfresource.SetLastError\<close> (package \<^verbatim>\<open>tfresource\<close> of this
  repository) is not among the sources. The spec's outcome of a wait is "a classified
  error carrying the last known state and, where applicable, a list of sub-errors
  extracted from the resource payload": the call stores the sub-errors as the last
  error of a timeout or unexpected-state error that has none yet, and leaves every
  other error as it is. The Go function updates the error in place; here the updated
  error is returned.
\<close>

fun SetLastError :: "error option \<Rightarrow> error option \<Rightarrow> error option" where
  "SetLastError (Some (TimeoutError None lastState expected)) lastErr =
     Some (TimeoutError lastErr lastState expected)"
| "SetLastError (Some (UnexpectedStateError None state expected)) lastErr =
     Some (UnexpectedStateError lastErr state expected)"
| "SetLastError err lastErr = err"

section \<open>The waiter engine\<close>

text \<open>
  A status probe answers its \<open>k\<close>-th call (counted from 0) with an error or with a
  snapshot and its state string. The configuration has the four fields the waiters set;
  \<open>PollInterval\<close> is the field they leave at Go's zero value.
\<close>

type_synonym PollResult = "error + (object \<times> string)"

record StateChangeConf =
  Pending :: "string list"
  Target :: "string list"
  Refresh :: "nat \<Rightarrow> PollResult"
  Timeout :: nat
  PollInterval :: nat

text \<open>A cancellation signal: whether the context is done at a given time.\<close>

type_synonym Context = "nat \<Rightarrow> bool"

definition Background :: Context where
  "Background = (\<lambda>t. False)"

record WaitOutcome =
  waitResult :: "object option"
  waitError :: "error option"
  probeLog :: "nat list"
  sleepCount :: nat

record LoopState =
  now :: nat
  calls :: nat
  slept :: nat
  lastObject :: "object option"
  lastState :: string
  probed :: "nat list"

definition stop :: "LoopState \<Rightarrow> object option \<Rightarrow> error option \<Rightarrow> WaitOutcome" where
  "stop s obj e = \<lparr>waitResult = obj, waitError = e, probeLog = probed s, sleepCount = slept s\<rparr>"

definition isNotFound :: "error \<Rightarrow> bool" where
  "isNotFound e = ErrCodeEquals (Some e) ErrCodeResourceNotFoundException"

text \<open>
  Modelled from the spec: \<^verbatim>\<open>StateChangeConf.WaitForStateContext\<close> and
  \<^verbatim>\<open>WaitForState\<close> (the Waiter Engine) are not among the sources. The loop is the
  algorithm of section 4.1 of the spec, with the cancellation check of section 5 at the
  head of every iteration, which is also the end of every sleep:
  \<^item> cancellation observed: stop with the cancellation error and no object;
  \<^item> deadline exceeded before the next probe: \<open>TimeoutError\<close> with the last state;
  \<^item> the probe fails with not-found and the target set is empty: success, no object;
  \<^item> the probe fails otherwise: that error, propagated;
  \<^item> the state is a target state, or the target set is empty and the state is not
    pending: success with the object;
  \<^item> the state is pending: sleep for the interval and go round again;
  \<^item> any other state: \<open>UnexpectedStateError\<close> with the state.
  A probe takes one tick of the clock and a sleep takes \<open>PollInterval\<close> ticks, so the
  loop is bounded by the deadline. Only the most recent snapshot is retained.
\<close>

function wait_loop :: "Context \<Rightarrow> StateChangeConf \<Rightarrow> nat \<Rightarrow> LoopState \<Rightarrow> WaitOutcome" where
  "wait_loop ctx conf deadline s =
     (if ctx (now s) then stop s None (Some CancellationError)
      else if deadline < now s then
        stop s (lastObject s) (Some (TimeoutError None (lastState s) (Target conf)))
      else
        (let s' = s\<lparr>probed := probed s @ [now s], calls := Suc (calls s)\<rparr> in
         case Refresh conf (calls s) of
           Inl e \<Rightarrow>
             if Target conf = [] \<and> isNotFound e then stop s' None None
             else stop s' None (Some e)
         | Inr (obj, state) \<Rightarrow>
             if state \<in> set (Target conf)
                \<or> (Target conf = [] \<and> state \<notin> set (Pending conf))
             then stop s' (Some obj) None
             else if state \<in> set (Pending conf) then
               wait_loop ctx conf deadline
                 (s'\<lparr>now := now s + 1 + PollInterval conf, slept := Suc (slept s),
                     lastObject := Some obj, lastState := state\<rparr>)
             else stop s' (Some obj)
                    (Some (UnexpectedStateError None state (Target conf)))))"
  by pat_completeness auto
termination
  by (relation "measure (\<lambda>(ctx, conf, deadline, s). Suc deadline - now s)") auto

declare wait_loop.simps [simp del]

definition initial :: LoopState where
  "initial = \<lparr>now = 0, calls = 0, slept = 0, lastObject = None, lastState = [], probed = []\<rparr>"

definition WaitForStateContext :: "Context \<Rightarrow> StateChangeConf \<Rightarrow> WaitOutcome" where
  "WaitForStateContext ctx conf = wait_loop ctx conf (0 + Timeout conf) initial"

text \<open>The wait without a context argument runs under the background context, which is never done.\<close>

definition WaitForState :: "StateChangeConf \<Rightarrow> WaitOutcome" where
  "WaitForState conf = WaitForStateContext Background conf"


section \<open>The waiters\<close>

text \<open>
  Each waiter builds its configuration, runs the wait, and post-processes the pair the
  wait returns. The status probe (\<^verbatim>\<open>ClusterStatus(conn, name)\<close> and its siblings, not
  among the sources) is the argument \<open>refresh\<close>. The post-processing is a function of
  its own, \<open>_return\<close>, so that it can be studied on any pair a wait may hand back.
\<close>

subsection \<open>Type assertions\<close>

fun asCluster :: "object option \<Rightarrow> Cluster option" where
  "asCluster (Some (ClusterObj c)) = Some c"
| "asCluster other = None"

fun asFargateProfile :: "object option \<Rightarrow> FargateProfile option" where
  "asFargateProfile (Some (FargateProfileObj f)) = Some f"
| "asFargateProfile other = None"

fun asNodegroup :: "object option \<Rightarrow> Nodegroup option" where
  "asNodegroup (Some (NodegroupObj n)) = Some n"
| "asNodegroup other = None"

fun asUpdate :: "object option \<Rightarrow> Update option" where
  "asUpdate (Some (UpdateObj u)) = Some u"
| "asUpdate other = None"

fun asAddon :: "object option \<Rightarrow> Addon option" where
  "asAddon (Some (AddonObj a)) = Some a"
| "asAddon other = None"

subsection \<open>The loops over sub-errors\<close>

text \<open>
  The loop of \<^verbatim>\<open>ClusterUpdateSuccessful\<close> and \<^verbatim>\<open>NodegroupUpdateSuccessful\<close>
  (lines 71-73 and 165-167): each sub-error is formatted with \<^verbatim>\<open>"%s: %s"\<close> and appended.
\<close>

fun appendUpdateErrors :: "error list option \<Rightarrow> ErrorDetail list \<Rightarrow> error list option" where
  "appendUpdateErrors errs [] = errs"
| "appendUpdateErrors errs (e # rest) =
     appendUpdateErrors
       (Append errs (Errorf (StringValue (ErrorCode e) @ '': '' @ StringValue (ErrorMessage e))))
       rest"

text \<open>
  The loops of \<^verbatim>\<open>EksAddonCreated\<close> (lines 195-198) and \<^verbatim>\<open>EksAddonUpdateSuccessful\<close>
  (lines 265-268): \<open>i\<close> is the index of the next element, and the entry is formatted with
  \<^verbatim>\<open>"Error %d: Code: %s / Message: %s"\<close> on \<open>i + 1\<close>.
\<close>

definition detailedError :: "nat \<Rightarrow> string \<Rightarrow> string \<Rightarrow> string" where
  "detailedError i code message =
     ''Error '' @ Itoa (i + 1) @ '': Code: '' @ code @ '' / Message: '' @ message"

fun addonIssuesLoop :: "nat \<Rightarrow> string list \<Rightarrow> AddonIssue list \<Rightarrow> string list" where
  "addonIssuesLoop i detailedErrors [] = detailedErrors"
| "addonIssuesLoop i detailedErrors (addonIssue # rest) =
     addonIssuesLoop (Suc i)
       (detailedErrors @ [detailedError i (StringValue (issue_Code addonIssue))
                                         (StringValue (issue_Message addonIssue))])
       rest"

fun updateErrorsLoop :: "nat \<Rightarrow> string list \<Rightarrow> ErrorDetail list \<Rightarrow> string list" where
  "updateErrorsLoop i detailedErrors [] = detailedErrors"
| "updateErrorsLoop i detailedErrors (updateError # rest) =
     updateErrorsLoop (Suc i)
       (detailedErrors @ [detailedError i (StringValue (ErrorCode updateError))
                                         (StringValue (ErrorMessage updateError))])
       rest"

subsection \<open>Cluster, Fargate profile and node group waiters\<close>

text \<open>\<^verbatim>\<open>ClusterCreated\<close> (lines 23-38).\<close>

definition ClusterCreated_stateConf :: "(nat \<Rightarrow> PollResult) \<Rightarrow> nat \<Rightarrow> StateChangeConf" where
  "ClusterCreated_stateConf refresh timeout =
     \<lparr>Pending = [ClusterStatusCreating], Target = [ClusterStatusActive],
      Refresh = refresh, Timeout = timeout, PollInterval = 0\<rparr>"

definition ClusterCreated_return :: "object option \<Rightarrow> error option \<Rightarrow> Cluster option \<times> error option" where
  "ClusterCreated_return outputRaw err =
     (case asCluster outputRaw of
        Some output \<Rightarrow> (Some output, err)
      | None \<Rightarrow> (None, err))"

definition ClusterCreated :: "(nat \<Rightarrow> PollResult) \<Rightarrow> nat \<Rightarrow> Cluster option \<times> error option" where
  "ClusterCreated refresh timeout =
     (let w = WaitForState (ClusterCreated_stateConf refresh timeout)
      in ClusterCreated_return (waitResult w) (waitError w))"

text \<open>\<^verbatim>\<open>ClusterDeleted\<close> (lines 40-55).\<close>

definition ClusterDeleted_stateConf :: "(nat \<Rightarrow> PollResult) \<Rightarrow> nat \<Rightarrow> StateChangeConf" where
  "ClusterDeleted_stateConf refresh timeout =
     \<lparr>Pending = [ClusterStatusActive, ClusterStatusDeleting], Target = [],
      Refresh = refresh, Timeout = timeout, PollInterval = 0\<rparr>"

definition ClusterDeleted_return :: "object option \<Rightarrow> error option \<Rightarrow> Cluster option \<times> error option" where
  "ClusterDeleted_return outputRaw err =
     (case asCluster outputRaw of
        Some output \<Rightarrow> (Some output, err)
      | None \<Rightarrow> (None, err))"

definition ClusterDeleted :: "(nat \<Rightarrow> PollResult) \<Rightarrow> nat \<Rightarrow> Cluster option \<times> error option" where
  "ClusterDeleted refresh timeout =
     (let w = WaitForState (ClusterDeleted_stateConf refresh timeout)
      in ClusterDeleted_return (waitResult w) (waitError w))"

text \<open>\<^verbatim>\<open>ClusterUpdateSuccessful\<close> (lines 57-81).\<close>

definition ClusterUpdateSuccessful_stateConf :: "(nat \<Rightarrow> PollResult) \<Rightarrow> nat \<Rightarrow> StateChangeConf" where
  "ClusterUpdateSuccessful_stateConf refresh timeout =
     \<lparr>Pending = [UpdateStatusInProgress], Target = [UpdateStatusSuccessful],
      Refresh = refresh, Timeout = timeout, PollInterval = 0\<rparr>"

definition ClusterUpdateSuccessful_return :: "object option \<Rightarrow> error option \<Rightarrow> Update option \<times> error option" where
  "ClusterUpdateSuccessful_return outputRaw err =
     (case asUpdate outputRaw of
        Some output \<Rightarrow>
          (let status = StringValue (update_Status output) in
           if status = UpdateStatusCancelled \<or> status = UpdateStatusFailed then
             (let errs = appendUpdateErrors None (update_Errors output)
              in (Some output, SetLastError err (ErrorOrNil errs)))
           else (Some output, err))
      | None \<Rightarrow> (None, err))"

definition ClusterUpdateSuccessful :: "(nat \<Rightarrow> PollResult) \<Rightarrow> nat \<Rightarrow> Update option \<times> error option" where
  "ClusterUpdateSuccessful refresh timeout =
     (let w = WaitForState (ClusterUpdateSuccessful_stateConf refresh timeout)
      in ClusterUpdateSuccessful_return (waitResult w) (waitError w))"

text \<open>\<^verbatim>\<open>FargateProfileCreated\<close> (lines 83-98).\<close>

definition FargateProfileCreated_stateConf :: "(nat \<Rightarrow> PollResult) \<Rightarrow> nat \<Rightarrow> StateChangeConf" where
  "FargateProfileCreated_stateConf refresh timeout =
     \<lparr>Pending = [FargateProfileStatusCreating], Target = [FargateProfileStatusActive],
      Refresh = refresh, Timeout = timeout, PollInterval = 0\<rparr>"

definition FargateProfileCreated_return :: "object option \<Rightarrow> error option \<Rightarrow> FargateProfile option \<times> error option" where
  "FargateProfileCreated_return outputRaw err =
     (case asFargateProfile outputRaw of
        Some output \<Rightarrow> (Some output, err)
      | None \<Rightarrow> (None, err))"

definition FargateProfileCreated :: "(nat \<Rightarrow> PollResult) \<Rightarrow> nat \<Rightarrow> FargateProfile option \<times> error option" where
  "FargateProfileCreated refresh timeout =
     (let w = WaitForState (FargateProfileCreated_stateConf refresh timeout)
      in FargateProfileCreated_return (waitResult w) (waitError w))"

text \<open>\<^verbatim>\<open>FargateProfileDeleted\<close> (lines 100-115).\<close>

definition FargateProfileDeleted_stateConf :: "(nat \<Rightarrow> PollResult) \<Rightarrow> nat \<Rightarrow> StateChangeConf" where
  "FargateProfileDeleted_stateConf refresh timeout =
     \<lparr>Pending = [FargateProfileStatusActive, FargateProfileStatusDeleting], Target = [],
      Refresh = refresh, Timeout = timeout, PollInterval = 0\<rparr>"

definition FargateProfileDeleted_return :: "object option \<Rightarrow> error option \<Rightarrow> FargateProfile option \<times> error option" where
  "FargateProfileDeleted_return outputRaw err =
     (case asFargateProfile outputRaw of
        Some output \<Rightarrow> (Some output, err)
      | None \<Rightarrow> (None, err))"

definition FargateProfileDeleted :: "(nat \<Rightarrow> PollResult) \<Rightarrow> nat \<Rightarrow> FargateProfile option \<times> error option" where
  "FargateProfileDeleted refresh timeout =
     (let w = WaitForState (FargateProfileDeleted_stateConf refresh timeout)
      in FargateProfileDeleted_return (waitResult w) (waitError w))"

text \<open>\<^verbatim>\<open>NodegroupCreated\<close> (lines 117-132).\<close>

definition NodegroupCreated_stateConf :: "(nat \<Rightarrow> PollResult) \<Rightarrow> nat \<Rightarrow> StateChangeConf" where
  "NodegroupCreated_stateConf refresh timeout =
     \<lparr>Pending = [NodegroupStatusCreating], Target = [NodegroupStatusActive],
      Refresh = refresh, Timeout = timeout, PollInterval = 0\<rparr>"

definition NodegroupCreated_return :: "object option \<Rightarrow> error option \<Rightarrow> Nodegroup option \<times> error option" where
  "NodegroupCreated_return outputRaw err =
     (case asNodegroup outputRaw of
        Some output \<Rightarrow> (Some output, err)
      | None \<Rightarrow> (None, err))"

definition NodegroupCreated :: "(nat \<Rightarrow> PollResult) \<Rightarrow> nat \<Rightarrow> Nodegroup option \<times> error option" where
  "NodegroupCreated refresh timeout =
     (let w = WaitForState (NodegroupCreated_stateConf refresh timeout)
      in NodegroupCreated_return (waitResult w) (waitError w))"

text \<open>\<^verbatim>\<open>NodegroupDeleted\<close> (lines 134-149).\<close>

definition NodegroupDeleted_stateConf :: "(nat \<Rightarrow> PollResult) \<Rightarrow> nat \<Rightarrow> StateChangeConf" where
  "NodegroupDeleted_stateConf refresh timeout =
     \<lparr>Pending = [NodegroupStatusActive, NodegroupStatusDeleting], Target = [],
      Refresh = refresh, Timeout = timeout, PollInterval = 0\<rparr>"

definition NodegroupDeleted_return :: "object option \<Rightarrow> error option \<Rightarrow> Nodegroup option \<times> error option" where
  "NodegroupDeleted_return outputRaw err =
     (case asNodegroup outputRaw of
        Some output \<Rightarrow> (Some output, err)
      | None \<Rightarrow> (None, err))"

definition NodegroupDeleted :: "(nat \<Rightarrow> PollResult) \<Rightarrow> nat \<Rightarrow> Nodegroup option \<times> error option" where
  "NodegroupDeleted refresh timeout =
     (let w = WaitForState (NodegroupDeleted_stateConf refresh timeout)
      in NodegroupDeleted_return (waitResult w) (waitError w))"

text \<open>\<^verbatim>\<open>NodegroupUpdateSuccessful\<close> (lines 151-175).\<close>

definition NodegroupUpdateSuccessful_stateConf :: "(nat \<Rightarrow> PollResult) \<Rightarrow> nat \<Rightarrow> StateChangeConf" where
  "NodegroupUpdateSuccessful_stateConf refresh timeout =
     \<lparr>Pending = [UpdateStatusInProgress], Target = [UpdateStatusSuccessful],
      Refresh = refresh, Timeout = timeout, PollInterval = 0\<rparr>"

definition NodegroupUpdateSuccessful_return :: "object option \<Rightarrow> error option \<Rightarrow> Update option \<times> error option" where
  "NodegroupUpdateSuccessful_return outputRaw err =
     (case asUpdate outputRaw of
        Some output \<Rightarrow>
          (let status = StringValue (update_Status output) in
           if status = UpdateStatusCancelled \<or> status = UpdateStatusFailed then
             (let errs = appendUpdateErrors None (update_Errors output)
              in (Some output, SetLastError err (ErrorOrNil errs)))
           else (Some output, err))
      | None \<Rightarrow> (None, err))"

definition NodegroupUpdateSuccessful :: "(nat \<Rightarrow> PollResult) \<Rightarrow> nat \<Rightarrow> Update option \<times> error option" where
  "NodegroupUpdateSuccessful refresh timeout =
     (let w = WaitForState (NodegroupUpdateSuccessful_stateConf refresh timeout)
      in NodegroupUpdateSuccessful_return (waitResult w) (waitError w))"

subsection \<open>Add-on waiters\<close>

text \<open>
  \<^verbatim>\<open>EksAddonCreated\<close> (lines 178-208). On the status "CREATE_FAILED" the code reads
  \<^verbatim>\<open>addon.Health.Issues\<close>; with a nil \<^verbatim>\<open>Health\<close> that is a nil dereference, the
  \<open>Inl\<close> result.
\<close>

definition EksAddonCreated_stateConf :: "(nat \<Rightarrow> PollResult) \<Rightarrow> StateChangeConf" where
  "EksAddonCreated_stateConf refresh =
     \<lparr>Pending = [AddonStatusCreating], Target = [AddonStatusActive, AddonStatusCreateFailed],
      Refresh = refresh, Timeout = EksAddonCreatedTimeout, PollInterval = 0\<rparr>"

definition EksAddonCreated_return ::
    "object option \<Rightarrow> error option \<Rightarrow> fault + (Addon option \<times> error option)" where
  "EksAddonCreated_return outputRaw err =
     (case asAddon outputRaw of
        Some addon \<Rightarrow>
          if StringValue (addon_Status addon) = AddonStatusCreateFailed then
            (case addon_Health addon of
               None \<Rightarrow> Inl NilDereference
             | Some health \<Rightarrow>
                 (let detailedErrors = addonIssuesLoop 0 [] (Issues health)
                  in Inr (Some addon,
                          Some (Errorf (''creation not successful (''
                                        @ StringValue (addon_Status addon) @ ''): Errors:''
                                        @ newline @ Join detailedErrors newline)))))
          else Inr (Some addon, err)
      | None \<Rightarrow> Inr (None, err))"

definition EksAddonCreated ::
    "Context \<Rightarrow> (nat \<Rightarrow> PollResult) \<Rightarrow> fault + (Addon option \<times> error option)" where
  "EksAddonCreated ctx refresh =
     (let w = WaitForStateContext ctx (EksAddonCreated_stateConf refresh)
      in EksAddonCreated_return (waitResult w) (waitError w))"

text \<open>\<^verbatim>\<open>EksAddonDeleted\<close> (lines 211-235).\<close>

definition EksAddonDeleted_stateConf :: "(nat \<Rightarrow> PollResult) \<Rightarrow> StateChangeConf" where
  "EksAddonDeleted_stateConf refresh =
     \<lparr>Pending = [AddonStatusActive, AddonStatusDeleting], Target = [],
      Refresh = refresh, Timeout = EksAddonDeletedTimeout, PollInterval = 0\<rparr>"

definition EksAddonDeleted_return :: "object option \<Rightarrow> error option \<Rightarrow> Addon option \<times> error option" where
  "EksAddonDeleted_return outputRaw err =
     (if err \<noteq> None \<and> ErrCodeEquals err ErrCodeResourceNotFoundException then (None, None)
      else case asAddon outputRaw of
             Some v \<Rightarrow> (Some v, err)
           | None \<Rightarrow> (None, err))"

definition EksAddonDeleted :: "Context \<Rightarrow> (nat \<Rightarrow> PollResult) \<Rightarrow> Addon option \<times> error option" where
  "EksAddonDeleted ctx refresh =
     (let w = WaitForStateContext ctx (EksAddonDeleted_stateConf refresh)
      in EksAddonDeleted_return (waitResult w) (waitError w))"

text \<open>\<^verbatim>\<open>EksAddonUpdateSuccessful\<close> (lines 238-272).\<close>

definition EksAddonUpdateSuccessful_stateConf :: "(nat \<Rightarrow> PollResult) \<Rightarrow> StateChangeConf" where
  "EksAddonUpdateSuccessful_stateConf refresh =
     \<lparr>Pending = [UpdateStatusInProgress], Target = [UpdateStatusCancelled, UpdateStatusFailed, UpdateStatusSuccessful],
      Refresh = refresh, Timeout = EksAddonUpdatedTimeout, PollInterval = 0\<rparr>"

definition EksAddonUpdateSuccessful_return ::
    "string \<Rightarrow> string \<Rightarrow> string \<Rightarrow> object option \<Rightarrow> error option
     \<Rightarrow> Update option \<times> error option" where
  "EksAddonUpdateSuccessful_return clusterName addonName updateID outputRaw err =
     (if err \<noteq> None then (None, err)
      else case asUpdate outputRaw of
             None \<Rightarrow> (None, err)
           | Some update \<Rightarrow>
               if StringValue (update_Status update) = UpdateStatusSuccessful then (None, None)
               else
                 (let detailedErrors = updateErrorsLoop 0 [] (update_Errors update)
                  in (Some update,
                      Some (Errorf (''EKS add-on ('' @ clusterName @ '':'' @ addonName
                                    @ '') update ('' @ updateID @ '') not successful (''
                                    @ StringValue (update_Status update) @ ''): Errors:''
                                    @ newline @ Join detailedErrors newline)))))"

definition EksAddonUpdateSuccessful ::
    "Context \<Rightarrow> (nat \<Rightarrow> PollResult) \<Rightarrow> string \<Rightarrow> string \<Rightarrow> string
     \<Rightarrow> Update option \<times> error option" where
  "EksAddonUpdateSuccessful ctx refresh clusterName addonName updateID =
     (let w = WaitForStateContext ctx (EksAddonUpdateSuccessful_stateConf refresh)
      in EksAddonUpdateSuccessful_return clusterName addonName updateID
           (waitResult w) (waitError w))"

section \<open>Sample snapshots\<close>

text \<open>Concrete snapshots and probes, used where a property is run on a concrete input.\<close>

definition activeCluster :: Cluster where
  "activeCluster = \<lparr>cluster_Name = Some ''c1'', cluster_Status = Some ''ACTIVE''\<rparr>"

definition creatingCluster :: Cluster where
  "creatingCluster = \<lparr>cluster_Name = Some ''c1'', cluster_Status = Some ''CREATING''\<rparr>"

definition activeFargateProfile :: FargateProfile where
  "activeFargateProfile = \<lparr>fargate_Name = Some ''fp1'', fargate_Status = Some ''ACTIVE''\<rparr>"

definition activeNodegroup :: Nodegroup where
  "activeNodegroup = \<lparr>nodegroup_Name = Some ''ng1'', nodegroup_Status = Some ''ACTIVE''\<rparr>"

definition twoErrors :: "ErrorDetail list" where
  "twoErrors = [\<lparr>ErrorCode = Some ''E1'', ErrorMessage = Some ''boom''\<rparr>,
                \<lparr>ErrorCode = Some ''E2'', ErrorMessage = Some ''bad''\<rparr>]"

definition successfulUpdate :: Update where
  "successfulUpdate =
     \<lparr>update_Id = Some ''u1'', update_Status = Some ''Successful'', update_Errors = []\<rparr>"

definition failedUpdate :: Update where
  "failedUpdate =
     \<lparr>update_Id = Some ''u1'', update_Status = Some ''Failed'', update_Errors = twoErrors\<rparr>"

definition failedUpdateNoErrors :: Update where
  "failedUpdateNoErrors =
     \<lparr>update_Id = Some ''u1'', update_Status = Some ''Failed'', update_Errors = []\<rparr>"

definition twoIssues :: "AddonIssue list" where
  "twoIssues = [\<lparr>issue_Code = Some ''E1'', issue_Message = Some ''boom''\<rparr>,
                \<lparr>issue_Code = Some ''E2'', issue_Message = Some ''bad''\<rparr>]"

definition creatingAddon :: Addon where
  "creatingAddon =
     \<lparr>addon_Name = Some ''vpc-cni'', addon_Status = Some ''CREATING'', addon_Health = None\<rparr>"

definition activeAddon :: Addon where
  "activeAddon =
     \<lparr>addon_Name = Some ''vpc-cni'', addon_Status = Some ''ACTIVE'', addon_Health = None\<rparr>"

definition failedAddon :: Addon where
  "failedAddon =
     \<lparr>addon_Name = Some ''vpc-cni'', addon_Status = Some ''CREATE_FAILED'',
      addon_Health = Some \<lparr>Issues = twoIssues\<rparr>\<rparr>"

definition failedAddonNoIssues :: Addon where
  "failedAddonNoIssues =
     \<lparr>addon_Name = Some ''vpc-cni'', addon_Status = Some ''CREATE_FAILED'',
      addon_Health = Some \<lparr>Issues = []\<rparr>\<rparr>"

definition failedAddonNoHealth :: Addon where
  "failedAddonNoHealth =
     \<lparr>addon_Name = Some ''vpc-cni'', addon_Status = Some ''CREATE_FAILED'',
      addon_Health = None\<rparr>"

definition notFound :: error where
  "notFound = ProbeError ''ResourceNotFoundException'' ''No addon: vpc-cni found in cluster: c1''"

text \<open>A probe that answers every call with the same result.\<close>

definition always :: "PollResult \<Rightarrow> nat \<Rightarrow> PollResult" where
  "always r = (\<lambda>k. r)"

text \<open>A probe that answers its first call with one result and every later call with another.\<close>

definition firstThen :: "PollResult \<Rightarrow> PollResult \<Rightarrow> nat \<Rightarrow> PollResult" where
  "firstThen r r' = (\<lambda>k. if k = 0 then r else r')"

text \<open>A cancellation signal that is done from time \<open>t0\<close> on.\<close>

definition cancelledFrom :: "nat \<Rightarrow> Context" where
  "cancelledFrom t0 = (\<lambda>t. t0 \<le> t)"

section \<open>Properties of the engine\<close>

lemmas status_defs =
  ClusterStatusCreating_def ClusterStatusActive_def ClusterStatusDeleting_def
  UpdateStatusInProgress_def UpdateStatusFailed_def UpdateStatusCancelled_def
  UpdateStatusSuccessful_def
  FargateProfileStatusCreating_def FargateProfileStatusActive_def FargateProfileStatusDeleting_def
  NodegroupStatusCreating_def NodegroupStatusActive_def NodegroupStatusDeleting_def
  AddonStatusCreating_def AddonStatusActive_def AddonStatusCreateFailed_def
  AddonStatusDeleting_def

lemmas sample_defs =
  activeCluster_def creatingCluster_def activeFargateProfile_def activeNodegroup_def
  twoErrors_def successfulUpdate_def failedUpdate_def failedUpdateNoErrors_def twoIssues_def
  creatingAddon_def activeAddon_def failedAddon_def failedAddonNoIssues_def
  failedAddonNoHealth_def notFound_def
  always_def firstThen_def cancelledFrom_def

lemmas stateConf_defs =
  ClusterCreated_stateConf_def ClusterDeleted_stateConf_def ClusterUpdateSuccessful_stateConf_def
  FargateProfileCreated_stateConf_def FargateProfileDeleted_stateConf_def
  NodegroupCreated_stateConf_def NodegroupDeleted_stateConf_def
  NodegroupUpdateSuccessful_stateConf_def
  EksAddonCreated_stateConf_def EksAddonDeleted_stateConf_def
  EksAddonUpdateSuccessful_stateConf_def


lemma wait_loop_cancelled:
  "ctx (now s) \<Longrightarrow> wait_loop ctx conf deadline s = stop s None (Some CancellationError)"
  by (simp add: wait_loop.simps)

lemma wait_loop_not_found:
  assumes "\<not> ctx (now s)" "\<not> deadline < now s" "Refresh conf (calls s) = Inl e" "isNotFound e"
  shows "wait_loop ctx conf deadline s =
           stop (s\<lparr>probed := probed s @ [now s], calls := Suc (calls s)\<rparr>) None
             (if Target conf = [] then None else Some e)"
  using assms by (simp add: wait_loop.simps [of ctx conf deadline s])

lemma wait_loop_target:
  assumes "\<not> ctx (now s)" "\<not> deadline < now s" "Refresh conf (calls s) = Inr (obj, st)"
    "st \<in> set (Target conf)"
  shows "wait_loop ctx conf deadline s =
           stop (s\<lparr>probed := probed s @ [now s], calls := Suc (calls s)\<rparr>) (Some obj) None"
  using assms by (simp add: wait_loop.simps [of ctx conf deadline s])

lemma wait_first_target:
  assumes "\<not> ctx 0" "Refresh conf 0 = Inr (obj, st)" "st \<in> set (Target conf)"
  shows "WaitForStateContext ctx conf =
           \<lparr>waitResult = Some obj, waitError = None, probeLog = [0], sleepCount = 0\<rparr>"
  using assms by (simp add: WaitForStateContext_def initial_def wait_loop_target stop_def)

lemma wait_first_not_found:
  assumes "\<not> ctx 0" "Refresh conf 0 = Inl e" "isNotFound e"
  shows "WaitForStateContext ctx conf =
           \<lparr>waitResult = None, waitError = (if Target conf = [] then None else Some e),
            probeLog = [0], sleepCount = 0\<rparr>"
  using assms by (simp add: WaitForStateContext_def initial_def wait_loop_not_found stop_def)

lemma probes_not_cancelled_loop:
  "(\<forall>t\<in>set (probed s). \<not> ctx t) \<Longrightarrow> \<forall>t\<in>set (probeLog (wait_loop ctx conf deadline s)). \<not> ctx t"
proof (induction ctx conf deadline s rule: wait_loop.induct)
  case (1 ctx conf deadline s)
  show ?case
    apply (subst wait_loop.simps)
    using 1
    by (auto simp: stop_def Let_def split: sum.splits prod.splits)
qed

lemma wait_loop_unexpected:
  assumes "\<not> ctx (now s)" "\<not> deadline < now s" "Refresh conf (calls s) = Inr (obj, st)"
    "st \<notin> set (Target conf)" "Target conf \<noteq> []" "st \<notin> set (Pending conf)"
  shows "wait_loop ctx conf deadline s =
           stop (s\<lparr>probed := probed s @ [now s], calls := Suc (calls s)\<rparr>) (Some obj)
             (Some (UnexpectedStateError None st (Target conf)))"
  using assms by (simp add: wait_loop.simps [of ctx conf deadline s])

lemma wait_first_unexpected:
  assumes "\<not> ctx 0" "Refresh conf 0 = Inr (obj, st)"
    "st \<notin> set (Target conf)" "Target conf \<noteq> []" "st \<notin> set (Pending conf)"
  shows "WaitForStateContext ctx conf =
           \<lparr>waitResult = Some obj,
            waitError = Some (UnexpectedStateError None st (Target conf)),
            probeLog = [0], sleepCount = 0\<rparr>"
  using assms by (simp add: WaitForStateContext_def initial_def wait_loop_unexpected stop_def)

section \<open>Properties of the post-processing\<close>

lemmas return_defs =
  ClusterCreated_return_def ClusterDeleted_return_def ClusterUpdateSuccessful_return_def
  FargateProfileCreated_return_def FargateProfileDeleted_return_def
  NodegroupCreated_return_def NodegroupDeleted_return_def NodegroupUpdateSuccessful_return_def
  EksAddonCreated_return_def EksAddonDeleted_return_def EksAddonUpdateSuccessful_return_def

text \<open>The loops over the sub-errors, as maps over the indexed list.\<close>

lemma addonIssuesLoop_eq:
  "addonIssuesLoop i acc issues =
     acc @ map (\<lambda>(k, x). detailedError k (StringValue (issue_Code x)) (StringValue (issue_Message x)))
             (enumerate i issues)"
  by (induction issues arbitrary: i acc) simp_all

lemma updateErrorsLoop_eq:
  "updateErrorsLoop i acc es =
     acc @ map (\<lambda>(k, x). detailedError k (StringValue (ErrorCode x)) (StringValue (ErrorMessage x)))
             (enumerate i es)"
  by (induction es arbitrary: i acc) simp_all

lemma appendUpdateErrors_Some:
  "appendUpdateErrors (Some acc) es =
     Some (acc @ map (\<lambda>e. Errorf (StringValue (ErrorCode e) @ '': '' @ StringValue (ErrorMessage e))) es)"
  by (induction es arbitrary: acc) simp_all

lemma appendUpdateErrors_None:
  "appendUpdateErrors None es =
     (if es = [] then None
      else Some (map (\<lambda>e. Errorf (StringValue (ErrorCode e) @ '': '' @ StringValue (ErrorMessage e))) es))"
  by (cases es) (simp_all add: appendUpdateErrors_Some)

lemma ErrorOrNil_appendUpdateErrors:
  "ErrorOrNil (appendUpdateErrors None es) =
     (if es = [] then None
      else Some (MultiError (map (\<lambda>e. Errorf (StringValue (ErrorCode e) @ '': ''
                                               @ StringValue (ErrorMessage e))) es)))"
  by (simp add: appendUpdateErrors_None)

lemma SetLastError_None_iff: "SetLastError e l = None \<longleftrightarrow> e = None"
  by (cases "(e, l)" rule: SetLastError.cases) auto

text \<open>A typed result, put back into an interface value, passes its type assertion.\<close>

lemma asCluster_map [simp]: "asCluster (map_option ClusterObj c) = c"
  by (cases c) auto

lemma asFargateProfile_map [simp]: "asFargateProfile (map_option FargateProfileObj f) = f"
  by (cases f) auto

lemma asNodegroup_map [simp]: "asNodegroup (map_option NodegroupObj n) = n"
  by (cases n) auto

lemma asUpdate_map [simp]: "asUpdate (map_option UpdateObj u) = u"
  by (cases u) auto

lemma asAddon_map [simp]: "asAddon (map_option AddonObj a) = a"
  by (cases a) auto

lemma plain_idem:
  "ClusterCreated_return outputRaw err = (c, None) \<Longrightarrow>
      ClusterCreated_return (map_option ClusterObj c) None = (c, None)"
  "ClusterDeleted_return outputRaw err = (c, None) \<Longrightarrow>
      ClusterDeleted_return (map_option ClusterObj c) None = (c, None)"
  "FargateProfileCreated_return outputRaw err = (f, None) \<Longrightarrow>
      FargateProfileCreated_return (map_option FargateProfileObj f) None = (f, None)"
  "FargateProfileDeleted_return outputRaw err = (f, None) \<Longrightarrow>
      FargateProfileDeleted_return (map_option FargateProfileObj f) None = (f, None)"
  "NodegroupCreated_return outputRaw err = (n, None) \<Longrightarrow>
      NodegroupCreated_return (map_option NodegroupObj n) None = (n, None)"
  "NodegroupDeleted_return outputRaw err = (n, None) \<Longrightarrow>
      NodegroupDeleted_return (map_option NodegroupObj n) None = (n, None)"
  by (auto simp: return_defs split: option.splits)

lemma update_idem:
  "ClusterUpdateSuccessful_return outputRaw err = (u, None) \<Longrightarrow>
      ClusterUpdateSuccessful_return (map_option UpdateObj u) None = (u, None)"
  "NodegroupUpdateSuccessful_return outputRaw err = (u, None) \<Longrightarrow>
      NodegroupUpdateSuccessful_return (map_option UpdateObj u) None = (u, None)"
  by (auto simp: return_defs Let_def SetLastError_None_iff split: option.splits if_splits)

lemma addon_idem:
  "EksAddonCreated_return outputRaw err = Inr (a, None) \<Longrightarrow>
      EksAddonCreated_return (map_option AddonObj a) None = Inr (a, None)"
  "EksAddonDeleted_return outputRaw err = (a, None) \<Longrightarrow>
      EksAddonDeleted_return (map_option AddonObj a) None = (a, None)"
  "EksAddonUpdateSuccessful_return clusterName addonName updateID outputRaw err = (u, None) \<Longrightarrow>
      EksAddonUpdateSuccessful_return clusterName addonName updateID (map_option UpdateObj u) None
        = (u, None)"
  by (auto simp: return_defs Let_def split: option.splits if_splits)

lemma HasPrefix_append: "HasPrefix (p @ rest) p"
  by (induction p) simp_all

lemma WaitForState_first_not_found:
  assumes "Refresh conf 0 = Inl e" "isNotFound e"
  shows "WaitForState conf =
           \<lparr>waitResult = None, waitError = (if Target conf = [] then None else Some e),
            probeLog = [0], sleepCount = 0\<rparr>"
  using assms by (simp add: WaitForState_def Background_def wait_first_not_found)

lemma WaitForState_first_target:
  assumes "Refresh conf 0 = Inr (obj, st)" "st \<in> set (Target conf)"
  shows "WaitForState conf =
           \<lparr>waitResult = Some obj, waitError = None, probeLog = [0], sleepCount = 0\<rparr>"
  using assms by (simp add: WaitForState_def Background_def wait_first_target)

lemma not_found_delete_waiters:
  assumes "refresh 0 = Inl e" "isNotFound e"
  shows "ClusterDeleted refresh timeout = (None, None)"
    and "FargateProfileDeleted refresh timeout = (None, None)"
    and "NodegroupDeleted refresh timeout = (None, None)"
    and "\<not> ctx 0 \<Longrightarrow> EksAddonDeleted ctx refresh = (None, None)"
  using assms
  by (simp_all add: ClusterDeleted_def FargateProfileDeleted_def NodegroupDeleted_def
      EksAddonDeleted_def WaitForState_first_not_found [of _ e]
      wait_first_not_found [of ctx _ e] stateConf_defs return_defs)

lemma not_found_other_waiters:
  assumes "refresh 0 = Inl e" "isNotFound e"
  shows "ClusterCreated refresh timeout = (None, Some e)"
    and "ClusterUpdateSuccessful refresh timeout = (None, Some e)"
    and "FargateProfileCreated refresh timeout = (None, Some e)"
    and "NodegroupCreated refresh timeout = (None, Some e)"
    and "NodegroupUpdateSuccessful refresh timeout = (None, Some e)"
    and "\<not> ctx 0 \<Longrightarrow> EksAddonCreated ctx refresh = Inr (None, Some e)"
    and "\<not> ctx 0 \<Longrightarrow>
         EksAddonUpdateSuccessful ctx refresh clusterName addonName updateID = (None, Some e)"
  using assms
  by (simp_all add: ClusterCreated_def ClusterUpdateSuccessful_def FargateProfileCreated_def
      NodegroupCreated_def NodegroupUpdateSuccessful_def EksAddonCreated_def
      EksAddonUpdateSuccessful_def WaitForState_first_not_found [of _ e]
      wait_first_not_found [of ctx _ e] stateConf_defs return_defs)

lemma EksAddonDeleted_return_not_found:
  "isNotFound e \<Longrightarrow> EksAddonDeleted_return outputRaw (Some e) = (None, None)"
  by (simp add: EksAddonDeleted_return_def isNotFound_def)

lemma first_target_plain_waiters:
  "rc 0 = Inr (ClusterObj c, ClusterStatusActive) \<Longrightarrow>
     ClusterCreated rc timeout = (Some c, None)"
  "ru 0 = Inr (UpdateObj u, UpdateStatusSuccessful) \<Longrightarrow>
     ClusterUpdateSuccessful ru timeout = (Some u, None)"
  "rf 0 = Inr (FargateProfileObj f, FargateProfileStatusActive) \<Longrightarrow>
     FargateProfileCreated rf timeout = (Some f, None)"
  "rn 0 = Inr (NodegroupObj n, NodegroupStatusActive) \<Longrightarrow>
     NodegroupCreated rn timeout = (Some n, None)"
  "ru 0 = Inr (UpdateObj u, UpdateStatusSuccessful) \<Longrightarrow>
     NodegroupUpdateSuccessful ru timeout = (Some u, None)"
  by (simp_all add: ClusterCreated_def ClusterUpdateSuccessful_def FargateProfileCreated_def
      NodegroupCreated_def NodegroupUpdateSuccessful_def
      WaitForState_first_target [of _ "ClusterObj c" ClusterStatusActive]
      WaitForState_first_target [of _ "UpdateObj u" UpdateStatusSuccessful]
      WaitForState_first_target [of _ "FargateProfileObj f" FargateProfileStatusActive]
      WaitForState_first_target [of _ "NodegroupObj n" NodegroupStatusActive]
      stateConf_defs return_defs Let_def)

lemma first_target_EksAddonCreated:
  assumes "\<not> ctx 0" "ra 0 = Inr (AddonObj a, st)" "StringValue (addon_Status a) = st"
  shows "st = AddonStatusActive \<Longrightarrow> EksAddonCreated ctx ra = Inr (Some a, None)"
    and "st = AddonStatusCreateFailed \<Longrightarrow> addon_Health a = Some h \<Longrightarrow>
         \<exists>msg. EksAddonCreated ctx ra = Inr (Some a, Some (Errorf msg))"
  using assms
  by (simp_all add: EksAddonCreated_def wait_first_target [of ctx _ "AddonObj a" st]
      EksAddonCreated_stateConf_def EksAddonCreated_return_def status_defs)

lemma first_target_EksAddonUpdateSuccessful:
  assumes "\<not> ctx 0" "rv 0 = Inr (UpdateObj v, st)" "StringValue (update_Status v) = st"
  shows "st = UpdateStatusSuccessful \<Longrightarrow>
         EksAddonUpdateSuccessful ctx rv clusterName addonName updateID = (None, None)"
    and "st = UpdateStatusCancelled \<or> st = UpdateStatusFailed \<Longrightarrow>
         \<exists>msg. EksAddonUpdateSuccessful ctx rv clusterName addonName updateID
                 = (Some v, Some (Errorf msg))"
  using assms
  by (auto simp: EksAddonUpdateSuccessful_def wait_first_target [of ctx _ "UpdateObj v" st]
      EksAddonUpdateSuccessful_stateConf_def EksAddonUpdateSuccessful_return_def status_defs)

lemma cancellation_has_no_object:
  "waitError (wait_loop ctx conf deadline s) = Some CancellationError \<Longrightarrow>
   waitResult (wait_loop ctx conf deadline s) = None"
proof (induction ctx conf deadline s rule: wait_loop.induct)
  case (1 ctx conf deadline s)
  from "1.prems" show ?case
    apply (subst wait_loop.simps)
    apply (subst (asm) wait_loop.simps)
    using "1.IH"
    by (auto simp: stop_def Let_def split: sum.splits prod.splits if_splits)
qed

lemma background_never_cancels:
  "\<forall>k. Refresh conf k \<noteq> Inl CancellationError \<Longrightarrow>
   waitError (wait_loop Background conf deadline s) \<noteq> Some CancellationError"
proof (induction Background conf deadline s rule: wait_loop.induct)
  case (1 conf deadline s)
  from "1.prems" show ?case
    apply (subst wait_loop.simps)
    using "1.hyps"
    by (auto simp: stop_def Let_def Background_def split: sum.splits prod.splits)
qed

lemma cancelled_addon_waiters:
  "waitError (WaitForStateContext ctx (EksAddonCreated_stateConf refresh))
     = Some CancellationError \<Longrightarrow>
   EksAddonCreated ctx refresh = Inr (None, Some CancellationError)"
  "waitError (WaitForStateContext ctx (EksAddonDeleted_stateConf refresh))
     = Some CancellationError \<Longrightarrow>
   EksAddonDeleted ctx refresh = (None, Some CancellationError)"
  "waitError (WaitForStateContext ctx (EksAddonUpdateSuccessful_stateConf refresh))
     = Some CancellationError \<Longrightarrow>
   EksAddonUpdateSuccessful ctx refresh clusterName addonName updateID
     = (None, Some CancellationError)"
  using cancellation_has_no_object [of ctx _ _ initial]
  by (simp_all add: EksAddonCreated_def EksAddonDeleted_def EksAddonUpdateSuccessful_def
      WaitForStateContext_def return_defs Let_def)

section \<open>Properties of the waiters\<close>

text \<open>
  C7. For every waiter function of the file, the pending-state set and the target-state
  set of the configuration it builds are disjoint: no state string is in both
  \<open>Pending\<close> and \<open>Target\<close>, whatever the probe and the timeout.
\<close>

theorem stateConf_pending_target_disjoint:
  "set (Pending (ClusterCreated_stateConf r t)) \<inter> set (Target (ClusterCreated_stateConf r t)) = {}
   \<and> set (Pending (ClusterDeleted_stateConf r t)) \<inter> set (Target (ClusterDeleted_stateConf r t)) = {}
   \<and> set (Pending (ClusterUpdateSuccessful_stateConf r t)) \<inter> set (Target (ClusterUpdateSuccessful_stateConf r t)) = {}
   \<and> set (Pending (FargateProfileCreated_stateConf r t)) \<inter> set (Target (FargateProfileCreated_stateConf r t)) = {}
   \<and> set (Pending (FargateProfileDeleted_stateConf r t)) \<inter> set (Target (FargateProfileDeleted_stateConf r t)) = {}
   \<and> set (Pending (NodegroupCreated_stateConf r t)) \<inter> set (Target (NodegroupCreated_stateConf r t)) = {}
   \<and> set (Pending (NodegroupDeleted_stateConf r t)) \<inter> set (Target (NodegroupDeleted_stateConf r t)) = {}
   \<and> set (Pending (NodegroupUpdateSuccessful_stateConf r t)) \<inter> set (Target (NodegroupUpdateSuccessful_stateConf r t)) = {}
   \<and> set (Pending (EksAddonCreated_stateConf r)) \<inter> set (Target (EksAddonCreated_stateConf r)) = {}
   \<and> set (Pending (EksAddonDeleted_stateConf r)) \<inter> set (Target (EksAddonDeleted_stateConf r)) = {}
   \<and> set (Pending (EksAddonUpdateSuccessful_stateConf r)) \<inter> set (Target (EksAddonUpdateSuccessful_stateConf r)) = {}"
  by (simp add: stateConf_defs status_defs)

text \<open>
  C5. When the terminal state is the success state of the waiter, the post-processing hands
  the observed object through unchanged, together with the wait's error as it is; the
  exception is \<^verbatim>\<open>EksAddonUpdateSuccessful\<close>, which on the status "Successful" drops the
  payload and returns the bare success marker (nil object, nil error).
\<close>

theorem success_state_passes_through:
  "(StringValue (cluster_Status c) = ClusterStatusActive \<longrightarrow>
      ClusterCreated_return (Some (ClusterObj c)) err = (Some c, err))
   \<and> (StringValue (update_Status u) = UpdateStatusSuccessful \<longrightarrow>
      ClusterUpdateSuccessful_return (Some (UpdateObj u)) err = (Some u, err))
   \<and> (StringValue (fargate_Status f) = FargateProfileStatusActive \<longrightarrow>
      FargateProfileCreated_return (Some (FargateProfileObj f)) err = (Some f, err))
   \<and> (StringValue (nodegroup_Status n) = NodegroupStatusActive \<longrightarrow>
      NodegroupCreated_return (Some (NodegroupObj n)) err = (Some n, err))
   \<and> (StringValue (update_Status u) = UpdateStatusSuccessful \<longrightarrow>
      NodegroupUpdateSuccessful_return (Some (UpdateObj u)) err = (Some u, err))
   \<and> (StringValue (addon_Status a) = AddonStatusActive \<longrightarrow>
      EksAddonCreated_return (Some (AddonObj a)) err = Inr (Some a, err))
   \<and> (StringValue (update_Status u) = UpdateStatusSuccessful \<longrightarrow>
      EksAddonUpdateSuccessful_return clusterName addonName updateID (Some (UpdateObj u)) None
        = (None, None))"
  by (simp add: return_defs status_defs)

theorem success_state_passes_through_witness:
  "StringValue (cluster_Status activeCluster) = ClusterStatusActive
   \<and> StringValue (update_Status successfulUpdate) = UpdateStatusSuccessful
   \<and> StringValue (fargate_Status activeFargateProfile) = FargateProfileStatusActive
   \<and> StringValue (nodegroup_Status activeNodegroup) = NodegroupStatusActive
   \<and> StringValue (addon_Status activeAddon) = AddonStatusActive
   \<and> ClusterCreated_return (Some (ClusterObj activeCluster)) None = (Some activeCluster, None)
   \<and> ClusterUpdateSuccessful_return (Some (UpdateObj successfulUpdate)) None
       = (Some successfulUpdate, None)
   \<and> FargateProfileCreated_return (Some (FargateProfileObj activeFargateProfile)) None
       = (Some activeFargateProfile, None)
   \<and> NodegroupCreated_return (Some (NodegroupObj activeNodegroup)) None
       = (Some activeNodegroup, None)
   \<and> NodegroupUpdateSuccessful_return (Some (UpdateObj successfulUpdate)) None
       = (Some successfulUpdate, None)
   \<and> EksAddonCreated_return (Some (AddonObj activeAddon)) None = Inr (Some activeAddon, None)
   \<and> EksAddonUpdateSuccessful_return ''c1'' ''vpc-cni'' ''u1'' (Some (UpdateObj successfulUpdate))
        None = (None, None)"
proof -
  have h: "StringValue (cluster_Status activeCluster) = ClusterStatusActive"
    "StringValue (update_Status successfulUpdate) = UpdateStatusSuccessful"
    "StringValue (fargate_Status activeFargateProfile) = FargateProfileStatusActive"
    "StringValue (nodegroup_Status activeNodegroup) = NodegroupStatusActive"
    "StringValue (addon_Status activeAddon) = AddonStatusActive"
    by (simp_all add: sample_defs status_defs)
  from h success_state_passes_through
    [of activeCluster None successfulUpdate activeFargateProfile activeNodegroup activeAddon
        "''c1''" "''vpc-cni''" "''u1''"]
  show ?thesis by blast
qed



text \<open>
  C10. For \<^verbatim>\<open>EksAddonCreated\<close> (given a health record) and \<^verbatim>\<open>EksAddonUpdateSuccessful\<close>,
  the failure or cancelled terminal state yields a non-nil error together with the
  terminal payload object also when the payload carries no sub-error: the message then
  ends with the prefix "Errors:" and a newline, with an empty list after it.
\<close>

theorem addon_failure_without_sub_errors:
  "(StringValue (addon_Status addon) = AddonStatusCreateFailed \<and> addon_Health addon = Some health
      \<and> Issues health = [] \<longrightarrow>
      EksAddonCreated_return (Some (AddonObj addon)) err
        = Inr (Some addon,
               Some (Errorf (''creation not successful (CREATE_FAILED): Errors:'' @ newline))))
   \<and> ((StringValue (update_Status update) = UpdateStatusCancelled
        \<or> StringValue (update_Status update) = UpdateStatusFailed)
       \<and> update_Errors update = [] \<longrightarrow>
      EksAddonUpdateSuccessful_return clusterName addonName updateID (Some (UpdateObj update)) None
        = (Some update,
           Some (Errorf (''EKS add-on ('' @ clusterName @ '':'' @ addonName @ '') update (''
                         @ updateID @ '') not successful ('' @ StringValue (update_Status update)
                         @ ''): Errors:'' @ newline))))"
  by (auto simp: return_defs status_defs)

theorem addon_failure_without_sub_errors_witness:
  "StringValue (addon_Status failedAddonNoIssues) = AddonStatusCreateFailed
   \<and> addon_Health failedAddonNoIssues = Some \<lparr>Issues = []\<rparr>
   \<and> StringValue (update_Status failedUpdateNoErrors) = UpdateStatusFailed
   \<and> update_Errors failedUpdateNoErrors = []
   \<and> EksAddonCreated_return (Some (AddonObj failedAddonNoIssues)) None
       = Inr (Some failedAddonNoIssues,
              Some (Errorf (''creation not successful (CREATE_FAILED): Errors:'' @ [CHR 0x0A])))
   \<and> EksAddonUpdateSuccessful_return ''c1'' ''vpc-cni'' ''u1''
        (Some (UpdateObj failedUpdateNoErrors)) None
       = (Some failedUpdateNoErrors,
          Some (Errorf (''EKS add-on (c1:vpc-cni) update (u1) not successful (Failed): Errors:''
                        @ [CHR 0x0A])))"
proof -
  have h: "StringValue (addon_Status failedAddonNoIssues) = AddonStatusCreateFailed"
    "addon_Health failedAddonNoIssues = Some \<lparr>Issues = []\<rparr>"
    "Issues \<lparr>Issues = []\<rparr> = []"
    "StringValue (update_Status failedUpdateNoErrors) = UpdateStatusFailed"
    "update_Errors failedUpdateNoErrors = []"
    by (simp_all add: sample_defs status_defs)
  from h addon_failure_without_sub_errors
    [of failedAddonNoIssues "\<lparr>Issues = []\<rparr>" None failedUpdateNoErrors
        "''c1''" "''vpc-cni''" "''u1''"]
  show ?thesis by (simp add: newline_def status_defs)
qed

text \<open>
  C8. The post-processing of every waiter is a function of the pair the wait returns, and
  it is idempotent on success outcomes: when it yields an object with a nil error, applying
  it again to that outcome yields the same outcome. (The typed result is put back into an
  interface value by \<open>map_option\<close> of the constructor.)
\<close>

theorem classification_idempotent_on_success:
  "(ClusterCreated_return rc err = (c, None) \<longrightarrow>
      ClusterCreated_return (map_option ClusterObj c) None = (c, None))
   \<and> (ClusterDeleted_return rc err = (c, None) \<longrightarrow>
      ClusterDeleted_return (map_option ClusterObj c) None = (c, None))
   \<and> (ClusterUpdateSuccessful_return ru err = (u, None) \<longrightarrow>
      ClusterUpdateSuccessful_return (map_option UpdateObj u) None = (u, None))
   \<and> (FargateProfileCreated_return rf err = (f, None) \<longrightarrow>
      FargateProfileCreated_return (map_option FargateProfileObj f) None = (f, None))
   \<and> (FargateProfileDeleted_return rf err = (f, None) \<longrightarrow>
      FargateProfileDeleted_return (map_option FargateProfileObj f) None = (f, None))
   \<and> (NodegroupCreated_return rn err = (n, None) \<longrightarrow>
      NodegroupCreated_return (map_option NodegroupObj n) None = (n, None))
   \<and> (NodegroupDeleted_return rn err = (n, None) \<longrightarrow>
      NodegroupDeleted_return (map_option NodegroupObj n) None = (n, None))
   \<and> (NodegroupUpdateSuccessful_return ru err = (u, None) \<longrightarrow>
      NodegroupUpdateSuccessful_return (map_option UpdateObj u) None = (u, None))
   \<and> (EksAddonCreated_return ra err = Inr (a, None) \<longrightarrow>
      EksAddonCreated_return (map_option AddonObj a) None = Inr (a, None))
   \<and> (EksAddonDeleted_return ra err = (a, None) \<longrightarrow>
      EksAddonDeleted_return (map_option AddonObj a) None = (a, None))
   \<and> (EksAddonUpdateSuccessful_return clusterName addonName updateID ru err = (v, None) \<longrightarrow>
      EksAddonUpdateSuccessful_return clusterName addonName updateID (map_option UpdateObj v) None
        = (v, None))"
  using plain_idem (1,2) [of rc err c] plain_idem (3,4) [of rf err f]
    plain_idem (5,6) [of rn err n] update_idem [of ru err u]
    addon_idem (1,2) [of ra err a]
    addon_idem (3) [of clusterName addonName updateID ru err v]
  by blast

theorem classification_idempotent_on_success_witness:
  "ClusterCreated_return (Some (ClusterObj activeCluster)) None = (Some activeCluster, None)
   \<and> ClusterDeleted_return (Some (ClusterObj activeCluster)) None = (Some activeCluster, None)
   \<and> ClusterUpdateSuccessful_return (Some (UpdateObj successfulUpdate)) None
       = (Some successfulUpdate, None)
   \<and> FargateProfileCreated_return (Some (FargateProfileObj activeFargateProfile)) None
       = (Some activeFargateProfile, None)
   \<and> FargateProfileDeleted_return (Some (FargateProfileObj activeFargateProfile)) None
       = (Some activeFargateProfile, None)
   \<and> NodegroupCreated_return (Some (NodegroupObj activeNodegroup)) None
       = (Some activeNodegroup, None)
   \<and> NodegroupDeleted_return (Some (NodegroupObj activeNodegroup)) None
       = (Some activeNodegroup, None)
   \<and> NodegroupUpdateSuccessful_return (Some (UpdateObj successfulUpdate)) None
       = (Some successfulUpdate, None)
   \<and> EksAddonCreated_return (Some (AddonObj activeAddon)) None = Inr (Some activeAddon, None)
   \<and> EksAddonDeleted_return (Some (AddonObj activeAddon)) None = (Some activeAddon, None)
   \<and> EksAddonUpdateSuccessful_return ''c1'' ''vpc-cni'' ''u1'' (Some (UpdateObj successfulUpdate))
        None = (None, None)
   \<and> EksAddonUpdateSuccessful_return ''c1'' ''vpc-cni'' ''u1'' (map_option UpdateObj None) None
       = (None, None)
   \<and> ClusterCreated_return (map_option ClusterObj (Some activeCluster)) None
       = (Some activeCluster, None)
   \<and> EksAddonCreated_return (map_option AddonObj (Some activeAddon)) None
       = Inr (Some activeAddon, None)"
proof -
  have h: "ClusterCreated_return (Some (ClusterObj activeCluster)) None = (Some activeCluster, None)"
    "ClusterDeleted_return (Some (ClusterObj activeCluster)) None = (Some activeCluster, None)"
    "ClusterUpdateSuccessful_return (Some (UpdateObj successfulUpdate)) None
       = (Some successfulUpdate, None)"
    "FargateProfileCreated_return (Some (FargateProfileObj activeFargateProfile)) None
       = (Some activeFargateProfile, None)"
    "FargateProfileDeleted_return (Some (FargateProfileObj activeFargateProfile)) None
       = (Some activeFargateProfile, None)"
    "NodegroupCreated_return (Some (NodegroupObj activeNodegroup)) None
       = (Some activeNodegroup, None)"
    "NodegroupDeleted_return (Some (NodegroupObj activeNodegroup)) None
       = (Some activeNodegroup, None)"
    "NodegroupUpdateSuccessful_return (Some (UpdateObj successfulUpdate)) None
       = (Some successfulUpdate, None)"
    "EksAddonCreated_return (Some (AddonObj activeAddon)) None = Inr (Some activeAddon, None)"
    "EksAddonDeleted_return (Some (AddonObj activeAddon)) None = (Some activeAddon, None)"
    "EksAddonUpdateSuccessful_return ''c1'' ''vpc-cni'' ''u1'' (Some (UpdateObj successfulUpdate))
        None = (None, None)"
    by (simp_all add: return_defs sample_defs status_defs)
  from h classification_idempotent_on_success
    [of "Some (ClusterObj activeCluster)" None "Some activeCluster"
        "Some (UpdateObj successfulUpdate)" "Some successfulUpdate"
        "Some (FargateProfileObj activeFargateProfile)" "Some activeFargateProfile"
        "Some (NodegroupObj activeNodegroup)" "Some activeNodegroup"
        "Some (AddonObj activeAddon)" "Some activeAddon"
        "''c1''" "''vpc-cni''" "''u1''" None]
  show ?thesis by blast
qed

text \<open>
  C2, as stated, fails for \<^verbatim>\<open>ClusterUpdateSuccessful\<close> (and its twin
  \<^verbatim>\<open>NodegroupUpdateSuccessful\<close>): for the sub-errors E1/boom and E2/bad of a failed update
  the returned error carries the entries "E1: boom" and "E2: bad", and its message contains
  neither "Error 1: Code: E1 / Message: boom" nor "Error 2: Code: E2 / Message: bad".
\<close>

theorem ClusterUpdateSuccessful_entries_counterexample:
  "ClusterUpdateSuccessful (always (Inr (UpdateObj failedUpdate, ''Failed''))) 10
     = (Some failedUpdate,
        Some (UnexpectedStateError (Some (MultiError [Errorf ''E1: boom'', Errorf ''E2: bad'']))
                ''Failed'' [''Successful'']))
   \<and> ClusterUpdateSuccessful_return (Some (UpdateObj failedUpdate))
        (Some (UnexpectedStateError None ''Failed'' [''Successful'']))
     = (Some failedUpdate,
        Some (UnexpectedStateError (Some (MultiError [Errorf ''E1: boom'', Errorf ''E2: bad'']))
                ''Failed'' [''Successful'']))
   \<and> \<not> Contains
         (Error (UnexpectedStateError (Some (MultiError [Errorf ''E1: boom'', Errorf ''E2: bad'']))
                   ''Failed'' [''Successful'']))
         ''Error 1: Code: E1 / Message: boom''
   \<and> \<not> Contains
         (Error (UnexpectedStateError (Some (MultiError [Errorf ''E1: boom'', Errorf ''E2: bad'']))
                   ''Failed'' [''Successful'']))
         ''Error 2: Code: E2 / Message: bad''"
proof -
  have run: "ClusterUpdateSuccessful (always (Inr (UpdateObj failedUpdate, ''Failed''))) 10
     = (Some failedUpdate,
        Some (UnexpectedStateError (Some (MultiError [Errorf ''E1: boom'', Errorf ''E2: bad'']))
                ''Failed'' [''Successful'']))"
    by (simp add: ClusterUpdateSuccessful_def WaitForState_def Background_def Let_def
        wait_first_unexpected [where obj = "UpdateObj failedUpdate" and st = "''Failed''"]
        ClusterUpdateSuccessful_stateConf_def always_def status_defs
        ClusterUpdateSuccessful_return_def failedUpdate_def twoErrors_def)
  have ret: "ClusterUpdateSuccessful_return (Some (UpdateObj failedUpdate))
        (Some (UnexpectedStateError None ''Failed'' [''Successful'']))
     = (Some failedUpdate,
        Some (UnexpectedStateError (Some (MultiError [Errorf ''E1: boom'', Errorf ''E2: bad'']))
                ''Failed'' [''Successful'']))"
    by (simp add: ClusterUpdateSuccessful_return_def Let_def status_defs failedUpdate_def
        twoErrors_def)
  have msg: "Error (UnexpectedStateError (Some (MultiError [Errorf ''E1: boom'', Errorf ''E2: bad'']))
                   ''Failed'' [''Successful''])
     = ''unexpected state '' @ [CHR 0x27] @ ''Failed'' @ [CHR 0x27] @ '', wanted target ''
       @ [CHR 0x27] @ ''Successful'' @ [CHR 0x27] @ ''. last error: 2 errors occurred:''
       @ [CHR 0x0A, CHR 0x09] @ ''* E1: boom'' @ [CHR 0x0A, CHR 0x09] @ ''* E2: bad''
       @ [CHR 0x0A, CHR 0x0A]"
    by (simp add: newline_def tab_def Itoa.simps digit_def)
  have no1: "\<not> Contains
         (Error (UnexpectedStateError (Some (MultiError [Errorf ''E1: boom'', Errorf ''E2: bad'']))
                   ''Failed'' [''Successful'']))
         ''Error 1: Code: E1 / Message: boom''"
    unfolding msg by simp
  have no2: "\<not> Contains
         (Error (UnexpectedStateError (Some (MultiError [Errorf ''E1: boom'', Errorf ''E2: bad'']))
                   ''Failed'' [''Successful'']))
         ''Error 2: Code: E2 / Message: bad''"
    unfolding msg by simp
  from run ret no1 no2 show ?thesis by blast
qed

text \<open>
  C2, amended. \<^verbatim>\<open>EksAddonCreated\<close> (given a health record) and
  \<^verbatim>\<open>EksAddonUpdateSuccessful\<close> render, after their prefix, one entry
  "Error i: Code: c / Message: m" per sub-error, in encounter order, numbered from 1 and
  separated by newlines. \<^verbatim>\<open>ClusterUpdateSuccessful\<close> and \<^verbatim>\<open>NodegroupUpdateSuccessful\<close>
  format each sub-error as "c: m", without an index, collect the entries in encounter
  order in one list error, and store that list as the last error of the wait's error
  (nothing is stored when there is no sub-error).
\<close>

theorem sub_error_entries_rendered:
  "(StringValue (addon_Status addon) = AddonStatusCreateFailed \<and> addon_Health addon = Some health
      \<longrightarrow>
      EksAddonCreated_return (Some (AddonObj addon)) err
        = Inr (Some addon,
               Some (Errorf (''creation not successful (CREATE_FAILED): Errors:'' @ newline
                 @ Join (map (\<lambda>(i, x). ''Error '' @ Itoa (i + 1) @ '': Code: ''
                                @ StringValue (issue_Code x) @ '' / Message: ''
                                @ StringValue (issue_Message x))
                             (enumerate 0 (Issues health)))
                        newline))))
   \<and> (StringValue (update_Status update) = UpdateStatusCancelled
        \<or> StringValue (update_Status update) = UpdateStatusFailed \<longrightarrow>
      EksAddonUpdateSuccessful_return clusterName addonName updateID (Some (UpdateObj update)) None
        = (Some update,
           Some (Errorf (''EKS add-on ('' @ clusterName @ '':'' @ addonName @ '') update (''
                   @ updateID @ '') not successful ('' @ StringValue (update_Status update)
                   @ ''): Errors:'' @ newline
                   @ Join (map (\<lambda>(i, x). ''Error '' @ Itoa (i + 1) @ '': Code: ''
                                  @ StringValue (ErrorCode x) @ '' / Message: ''
                                  @ StringValue (ErrorMessage x))
                               (enumerate 0 (update_Errors update)))
                          newline))))
   \<and> (StringValue (update_Status update) = UpdateStatusCancelled
        \<or> StringValue (update_Status update) = UpdateStatusFailed \<longrightarrow>
      ClusterUpdateSuccessful_return (Some (UpdateObj update)) waitErr
        = (Some update,
           SetLastError waitErr
             (if update_Errors update = [] then None
              else Some (MultiError
                     (map (\<lambda>e. Errorf (StringValue (ErrorCode e) @ '': ''
                                        @ StringValue (ErrorMessage e)))
                          (update_Errors update)))))
      \<and> NodegroupUpdateSuccessful_return (Some (UpdateObj update)) waitErr
        = ClusterUpdateSuccessful_return (Some (UpdateObj update)) waitErr)"
proof -
  have a: "StringValue (addon_Status addon) = AddonStatusCreateFailed
      \<and> addon_Health addon = Some health \<longrightarrow>
      EksAddonCreated_return (Some (AddonObj addon)) err
        = Inr (Some addon,
               Some (Errorf (''creation not successful (CREATE_FAILED): Errors:'' @ newline
                 @ Join (map (\<lambda>(i, x). ''Error '' @ Itoa (i + 1) @ '': Code: ''
                                @ StringValue (issue_Code x) @ '' / Message: ''
                                @ StringValue (issue_Message x))
                             (enumerate 0 (Issues health)))
                        newline)))"
    by (simp add: EksAddonCreated_return_def addonIssuesLoop_eq detailedError_def status_defs)
  have b: "StringValue (update_Status update) = UpdateStatusCancelled
        \<or> StringValue (update_Status update) = UpdateStatusFailed \<longrightarrow>
      EksAddonUpdateSuccessful_return clusterName addonName updateID (Some (UpdateObj update)) None
        = (Some update,
           Some (Errorf (''EKS add-on ('' @ clusterName @ '':'' @ addonName @ '') update (''
                   @ updateID @ '') not successful ('' @ StringValue (update_Status update)
                   @ ''): Errors:'' @ newline
                   @ Join (map (\<lambda>(i, x). ''Error '' @ Itoa (i + 1) @ '': Code: ''
                                  @ StringValue (ErrorCode x) @ '' / Message: ''
                                  @ StringValue (ErrorMessage x))
                               (enumerate 0 (update_Errors update)))
                          newline)))"
    by (auto simp: EksAddonUpdateSuccessful_return_def updateErrorsLoop_eq detailedError_def
        status_defs)
  have c: "StringValue (update_Status update) = UpdateStatusCancelled
        \<or> StringValue (update_Status update) = UpdateStatusFailed \<longrightarrow>
      ClusterUpdateSuccessful_return (Some (UpdateObj update)) waitErr
        = (Some update,
           SetLastError waitErr
             (if update_Errors update = [] then None
              else Some (MultiError
                     (map (\<lambda>e. Errorf (StringValue (ErrorCode e) @ '': ''
                                        @ StringValue (ErrorMessage e)))
                          (update_Errors update)))))"
    by (simp add: ClusterUpdateSuccessful_return_def Let_def ErrorOrNil_appendUpdateErrors)
  have d: "NodegroupUpdateSuccessful_return (Some (UpdateObj update)) waitErr
        = ClusterUpdateSuccessful_return (Some (UpdateObj update)) waitErr"
    by (simp add: ClusterUpdateSuccessful_return_def NodegroupUpdateSuccessful_return_def)
  from a b c d show ?thesis by blast
qed

theorem sub_error_entries_rendered_witness:
  "StringValue (addon_Status failedAddon) = AddonStatusCreateFailed
   \<and> addon_Health failedAddon = Some \<lparr>Issues = twoIssues\<rparr>
   \<and> StringValue (update_Status failedUpdate) = UpdateStatusFailed
   \<and> EksAddonCreated_return (Some (AddonObj failedAddon)) None
       = Inr (Some failedAddon,
              Some (Errorf (''creation not successful (CREATE_FAILED): Errors:'' @ [CHR 0x0A]
                            @ ''Error 1: Code: E1 / Message: boom'' @ [CHR 0x0A]
                            @ ''Error 2: Code: E2 / Message: bad'')))
   \<and> EksAddonUpdateSuccessful_return ''c1'' ''vpc-cni'' ''u1'' (Some (UpdateObj failedUpdate)) None
       = (Some failedUpdate,
          Some (Errorf (''EKS add-on (c1:vpc-cni) update (u1) not successful (Failed): Errors:''
                        @ [CHR 0x0A] @ ''Error 1: Code: E1 / Message: boom'' @ [CHR 0x0A]
                        @ ''Error 2: Code: E2 / Message: bad'')))
   \<and> ClusterUpdateSuccessful_return (Some (UpdateObj failedUpdate))
        (Some (UnexpectedStateError None ''Failed'' [''Successful'']))
       = (Some failedUpdate,
          Some (UnexpectedStateError (Some (MultiError [Errorf ''E1: boom'', Errorf ''E2: bad'']))
                  ''Failed'' [''Successful'']))
   \<and> NodegroupUpdateSuccessful_return (Some (UpdateObj failedUpdate))
        (Some (UnexpectedStateError None ''Failed'' [''Successful'']))
       = (Some failedUpdate,
          Some (UnexpectedStateError (Some (MultiError [Errorf ''E1: boom'', Errorf ''E2: bad'']))
                  ''Failed'' [''Successful'']))"
proof -
  have h: "StringValue (addon_Status failedAddon) = AddonStatusCreateFailed"
    "addon_Health failedAddon = Some \<lparr>Issues = twoIssues\<rparr>"
    "StringValue (update_Status failedUpdate) = UpdateStatusFailed"
    by (simp_all add: sample_defs status_defs)
  have n: "Itoa (Suc 0) = ''1''" "Itoa (Suc (Suc 0)) = ''2''"
    by (simp_all add: Itoa.simps digit_def)
  from h sub_error_entries_rendered
    [of failedAddon "\<lparr>Issues = twoIssues\<rparr>" None failedUpdate "''c1''" "''vpc-cni''" "''u1''"
        "Some (UnexpectedStateError None ''Failed'' [''Successful''])"]
  show ?thesis
    by (simp add: n newline_def status_defs failedUpdate_def failedAddon_def twoErrors_def
        twoIssues_def)
qed

text \<open>
  C4, as stated, fails for \<^verbatim>\<open>EksAddonCreated\<close>: the message it builds for a failed add-on
  named "vpc-cni" starts with "creation not successful (CREATE_FAILED)" and contains
  neither the name of the add-on nor a resource kind.
\<close>

theorem EksAddonCreated_message_counterexample:
  "EksAddonCreated_return (Some (AddonObj failedAddon)) None
     = Inr (Some failedAddon,
            Some (Errorf (''creation not successful (CREATE_FAILED): Errors:'' @ [CHR 0x0A]
                          @ ''Error 1: Code: E1 / Message: boom'' @ [CHR 0x0A]
                          @ ''Error 2: Code: E2 / Message: bad'')))
   \<and> addon_Name failedAddon = Some ''vpc-cni''
   \<and> \<not> Contains (''creation not successful (CREATE_FAILED): Errors:'' @ [CHR 0x0A]
                   @ ''Error 1: Code: E1 / Message: boom'' @ [CHR 0x0A]
                   @ ''Error 2: Code: E2 / Message: bad'') ''vpc-cni''
   \<and> \<not> Contains (''creation not successful (CREATE_FAILED): Errors:'' @ [CHR 0x0A]
                   @ ''Error 1: Code: E1 / Message: boom'' @ [CHR 0x0A]
                   @ ''Error 2: Code: E2 / Message: bad'') ''add-on''"
proof -
  have n: "Itoa (Suc 0) = ''1''" "Itoa (Suc (Suc 0)) = ''2''"
    by (simp_all add: Itoa.simps digit_def)
  have run: "EksAddonCreated_return (Some (AddonObj failedAddon)) None
     = Inr (Some failedAddon,
            Some (Errorf (''creation not successful (CREATE_FAILED): Errors:'' @ [CHR 0x0A]
                          @ ''Error 1: Code: E1 / Message: boom'' @ [CHR 0x0A]
                          @ ''Error 2: Code: E2 / Message: bad'')))"
    by (simp add: EksAddonCreated_return_def failedAddon_def twoIssues_def status_defs
        detailedError_def n newline_def)
  have name: "addon_Name failedAddon = Some ''vpc-cni''"
    by (simp add: failedAddon_def)
  have no1: "\<not> Contains (''creation not successful (CREATE_FAILED): Errors:'' @ [CHR 0x0A]
                   @ ''Error 1: Code: E1 / Message: boom'' @ [CHR 0x0A]
                   @ ''Error 2: Code: E2 / Message: bad'') ''vpc-cni''"
    by simp
  have no2: "\<not> Contains (''creation not successful (CREATE_FAILED): Errors:'' @ [CHR 0x0A]
                   @ ''Error 1: Code: E1 / Message: boom'' @ [CHR 0x0A]
                   @ ''Error 2: Code: E2 / Message: bad'') ''add-on''"
    by simp
  from run name no1 no2 show ?thesis by blast
qed

text \<open>
  C4, amended. The message of \<^verbatim>\<open>EksAddonUpdateSuccessful\<close> starts with the resource kind,
  the cluster and add-on names, the update identifier and the observed status. The message
  of \<^verbatim>\<open>EksAddonCreated\<close> (given a health record) starts with "creation not successful" and
  the observed status only. \<^verbatim>\<open>ClusterUpdateSuccessful\<close> and \<^verbatim>\<open>NodegroupUpdateSuccessful\<close>
  build no message of their own: the sub-errors become the last error of the wait's
  unexpected-state error, whose message starts with the observed state and the wanted
  target states and names neither the resource nor the update.
\<close>

theorem failure_message_context:
  "(StringValue (update_Status update) = UpdateStatusCancelled
      \<or> StringValue (update_Status update) = UpdateStatusFailed \<longrightarrow>
      (\<exists>msg. EksAddonUpdateSuccessful_return clusterName addonName updateID
                (Some (UpdateObj update)) None = (Some update, Some (Errorf msg))
             \<and> HasPrefix msg
                 (''EKS add-on ('' @ clusterName @ '':'' @ addonName @ '') update ('' @ updateID
                  @ '') not successful ('' @ StringValue (update_Status update)
                  @ ''): Errors:'' @ newline)))
   \<and> (StringValue (addon_Status addon) = AddonStatusCreateFailed
        \<and> addon_Health addon = Some health \<longrightarrow>
      (\<exists>msg. EksAddonCreated_return (Some (AddonObj addon)) err
               = Inr (Some addon, Some (Errorf msg))
             \<and> HasPrefix msg
                 (''creation not successful ('' @ StringValue (addon_Status addon)
                  @ ''): Errors:'' @ newline)))
   \<and> ((StringValue (update_Status update) = UpdateStatusCancelled
        \<or> StringValue (update_Status update) = UpdateStatusFailed)
       \<and> update_Errors update \<noteq> [] \<longrightarrow>
      (\<exists>lastErr.
          ClusterUpdateSuccessful_return (Some (UpdateObj update))
            (Some (UnexpectedStateError None state expected))
            = (Some update, Some (UnexpectedStateError (Some lastErr) state expected))
        \<and> NodegroupUpdateSuccessful_return (Some (UpdateObj update))
            (Some (UnexpectedStateError None state expected))
            = (Some update, Some (UnexpectedStateError (Some lastErr) state expected))
        \<and> Error (UnexpectedStateError (Some lastErr) state expected)
            = ''unexpected state '' @ [CHR 0x27] @ state @ [CHR 0x27] @ '', wanted target ''
              @ [CHR 0x27] @ Join expected '', '' @ [CHR 0x27] @ ''. last error: ''
              @ Error lastErr))"
proof -
  have a: "StringValue (update_Status update) = UpdateStatusCancelled
      \<or> StringValue (update_Status update) = UpdateStatusFailed \<longrightarrow>
      (\<exists>msg. EksAddonUpdateSuccessful_return clusterName addonName updateID
                (Some (UpdateObj update)) None = (Some update, Some (Errorf msg))
             \<and> HasPrefix msg
                 (''EKS add-on ('' @ clusterName @ '':'' @ addonName @ '') update ('' @ updateID
                  @ '') not successful ('' @ StringValue (update_Status update)
                  @ ''): Errors:'' @ newline))"
  proof
    assume st: "StringValue (update_Status update) = UpdateStatusCancelled
      \<or> StringValue (update_Status update) = UpdateStatusFailed"
    let ?p = "''EKS add-on ('' @ clusterName @ '':'' @ addonName @ '') update ('' @ updateID
                  @ '') not successful ('' @ StringValue (update_Status update)
                  @ ''): Errors:'' @ newline"
    let ?rest = "Join (updateErrorsLoop 0 [] (update_Errors update)) newline"
    from st have "EksAddonUpdateSuccessful_return clusterName addonName updateID
                (Some (UpdateObj update)) None = (Some update, Some (Errorf (?p @ ?rest)))"
      by (auto simp: EksAddonUpdateSuccessful_return_def status_defs)
    moreover have "HasPrefix (?p @ ?rest) ?p" by (rule HasPrefix_append)
    ultimately show "\<exists>msg. EksAddonUpdateSuccessful_return clusterName addonName updateID
                (Some (UpdateObj update)) None = (Some update, Some (Errorf msg))
             \<and> HasPrefix msg ?p"
      by blast
  qed
  have b: "StringValue (addon_Status addon) = AddonStatusCreateFailed
        \<and> addon_Health addon = Some health \<longrightarrow>
      (\<exists>msg. EksAddonCreated_return (Some (AddonObj addon)) err
               = Inr (Some addon, Some (Errorf msg))
             \<and> HasPrefix msg
                 (''creation not successful ('' @ StringValue (addon_Status addon)
                  @ ''): Errors:'' @ newline))"
  proof
    assume st: "StringValue (addon_Status addon) = AddonStatusCreateFailed
        \<and> addon_Health addon = Some health"
    let ?p = "''creation not successful ('' @ StringValue (addon_Status addon)
                  @ ''): Errors:'' @ newline"
    let ?rest = "Join (addonIssuesLoop 0 [] (Issues health)) newline"
    from st have "EksAddonCreated_return (Some (AddonObj addon)) err
               = Inr (Some addon, Some (Errorf (?p @ ?rest)))"
      by (simp add: EksAddonCreated_return_def)
    moreover have "HasPrefix (?p @ ?rest) ?p" by (rule HasPrefix_append)
    ultimately show "\<exists>msg. EksAddonCreated_return (Some (AddonObj addon)) err
               = Inr (Some addon, Some (Errorf msg)) \<and> HasPrefix msg ?p"
      by blast
  qed
  have c: "(StringValue (update_Status update) = UpdateStatusCancelled
        \<or> StringValue (update_Status update) = UpdateStatusFailed)
       \<and> update_Errors update \<noteq> [] \<longrightarrow>
      (\<exists>lastErr.
          ClusterUpdateSuccessful_return (Some (UpdateObj update))
            (Some (UnexpectedStateError None state expected))
            = (Some update, Some (UnexpectedStateError (Some lastErr) state expected))
        \<and> NodegroupUpdateSuccessful_return (Some (UpdateObj update))
            (Some (UnexpectedStateError None state expected))
            = (Some update, Some (UnexpectedStateError (Some lastErr) state expected))
        \<and> Error (UnexpectedStateError (Some lastErr) state expected)
            = ''unexpected state '' @ [CHR 0x27] @ state @ [CHR 0x27] @ '', wanted target ''
              @ [CHR 0x27] @ Join expected '', '' @ [CHR 0x27] @ ''. last error: ''
              @ Error lastErr)"
    by (simp add: ClusterUpdateSuccessful_return_def NodegroupUpdateSuccessful_return_def Let_def
        ErrorOrNil_appendUpdateErrors)
  from a b c show ?thesis by blast
qed

theorem failure_message_context_witness:
  "StringValue (update_Status failedUpdate) = UpdateStatusFailed
   \<and> update_Errors failedUpdate \<noteq> []
   \<and> StringValue (addon_Status failedAddon) = AddonStatusCreateFailed
   \<and> addon_Health failedAddon = Some \<lparr>Issues = twoIssues\<rparr>
   \<and> (\<exists>msg. EksAddonUpdateSuccessful_return ''c1'' ''vpc-cni'' ''u1''
               (Some (UpdateObj failedUpdate)) None = (Some failedUpdate, Some (Errorf msg))
            \<and> HasPrefix msg
                (''EKS add-on (c1:vpc-cni) update (u1) not successful (Failed): Errors:''
                 @ [CHR 0x0A]))
   \<and> (\<exists>msg. EksAddonCreated_return (Some (AddonObj failedAddon)) None
               = Inr (Some failedAddon, Some (Errorf msg))
            \<and> HasPrefix msg (''creation not successful (CREATE_FAILED): Errors:'' @ [CHR 0x0A]))
   \<and> (\<exists>lastErr.
          ClusterUpdateSuccessful_return (Some (UpdateObj failedUpdate))
            (Some (UnexpectedStateError None ''Failed'' [''Successful'']))
            = (Some failedUpdate,
               Some (UnexpectedStateError (Some lastErr) ''Failed'' [''Successful'']))
        \<and> NodegroupUpdateSuccessful_return (Some (UpdateObj failedUpdate))
            (Some (UnexpectedStateError None ''Failed'' [''Successful'']))
            = (Some failedUpdate,
               Some (UnexpectedStateError (Some lastErr) ''Failed'' [''Successful'']))
        \<and> Error (UnexpectedStateError (Some lastErr) ''Failed'' [''Successful''])
            = ''unexpected state '' @ [CHR 0x27] @ ''Failed'' @ [CHR 0x27]
              @ '', wanted target '' @ [CHR 0x27] @ ''Successful'' @ [CHR 0x27]
              @ ''. last error: '' @ Error lastErr)"
proof -
  have h: "StringValue (update_Status failedUpdate) = UpdateStatusFailed"
    "update_Errors failedUpdate \<noteq> []"
    "StringValue (addon_Status failedAddon) = AddonStatusCreateFailed"
    "addon_Health failedAddon = Some \<lparr>Issues = twoIssues\<rparr>"
    by (simp_all add: sample_defs status_defs)
  have s: "StringValue (update_Status failedUpdate) = ''Failed''"
    "StringValue (addon_Status failedAddon) = ''CREATE_FAILED''"
    "newline = [CHR 0x0A]" "Join [''Successful''] '', '' = ''Successful''"
    by (simp_all add: sample_defs newline_def)
  from h failure_message_context
    [of failedUpdate "''c1''" "''vpc-cni''" "''u1''" failedAddon "\<lparr>Issues = twoIssues\<rparr>" None
        "''Failed''" "[''Successful'']"]
  show ?thesis unfolding s status_defs by simp
qed

text \<open>
  C1. A "resource not found" failure of the probe is turned into success (nil object, nil
  error) exactly when the target-state set of the wait is empty. At any iteration of the
  wait that reaches its probe, a not-found failure ends the wait with no object, and with
  no error if the target set is empty and with that very error otherwise. So every
  delete-style waiter returns (nil, nil) on a not-found probe, and every waiter with
  target states returns the not-found error to its caller. \<^verbatim>\<open>EksAddonDeleted\<close> moreover
  turns a not-found error that the wait hands back into (nil, nil) by itself.
\<close>

theorem not_found_is_success_iff_no_targets:
  "(\<not> ctx (now s) \<and> \<not> deadline < now s \<and> Refresh conf (calls s) = Inl e \<and> isNotFound e
      \<longrightarrow>
      waitResult (wait_loop ctx conf deadline s) = None
      \<and> waitError (wait_loop ctx conf deadline s) = (if Target conf = [] then None else Some e))
   \<and> (refresh 0 = Inl e \<and> isNotFound e \<longrightarrow>
      ClusterDeleted refresh timeout = (None, None)
      \<and> FargateProfileDeleted refresh timeout = (None, None)
      \<and> NodegroupDeleted refresh timeout = (None, None)
      \<and> ClusterCreated refresh timeout = (None, Some e)
      \<and> ClusterUpdateSuccessful refresh timeout = (None, Some e)
      \<and> FargateProfileCreated refresh timeout = (None, Some e)
      \<and> NodegroupCreated refresh timeout = (None, Some e)
      \<and> NodegroupUpdateSuccessful refresh timeout = (None, Some e))
   \<and> (refresh 0 = Inl e \<and> isNotFound e \<and> \<not> ctx 0 \<longrightarrow>
      EksAddonDeleted ctx refresh = (None, None)
      \<and> EksAddonCreated ctx refresh = Inr (None, Some e)
      \<and> EksAddonUpdateSuccessful ctx refresh clusterName addonName updateID = (None, Some e))
   \<and> (isNotFound e \<longrightarrow> EksAddonDeleted_return outputRaw (Some e) = (None, None))"
proof -
  have loop: "\<not> ctx (now s) \<and> \<not> deadline < now s \<and> Refresh conf (calls s) = Inl e
      \<and> isNotFound e \<longrightarrow>
      waitResult (wait_loop ctx conf deadline s) = None
      \<and> waitError (wait_loop ctx conf deadline s) = (if Target conf = [] then None else Some e)"
    by (simp add: wait_loop_not_found stop_def)
  have plain: "refresh 0 = Inl e \<and> isNotFound e \<longrightarrow>
      ClusterDeleted refresh timeout = (None, None)
      \<and> FargateProfileDeleted refresh timeout = (None, None)
      \<and> NodegroupDeleted refresh timeout = (None, None)
      \<and> ClusterCreated refresh timeout = (None, Some e)
      \<and> ClusterUpdateSuccessful refresh timeout = (None, Some e)
      \<and> FargateProfileCreated refresh timeout = (None, Some e)
      \<and> NodegroupCreated refresh timeout = (None, Some e)
      \<and> NodegroupUpdateSuccessful refresh timeout = (None, Some e)"
    by (simp add: not_found_delete_waiters [of refresh e]
        not_found_other_waiters [of refresh e])
  have addon: "refresh 0 = Inl e \<and> isNotFound e \<and> \<not> ctx 0 \<longrightarrow>
      EksAddonDeleted ctx refresh = (None, None)
      \<and> EksAddonCreated ctx refresh = Inr (None, Some e)
      \<and> EksAddonUpdateSuccessful ctx refresh clusterName addonName updateID = (None, Some e)"
    by (simp add: not_found_delete_waiters [of refresh e]
        not_found_other_waiters [of refresh e])
  have ret: "isNotFound e \<longrightarrow> EksAddonDeleted_return outputRaw (Some e) = (None, None)"
    by (simp add: EksAddonDeleted_return_not_found)
  show ?thesis
    by (intro conjI) (rule loop, rule plain, rule addon, rule ret)
qed

theorem not_found_is_success_iff_no_targets_witness:
  "always (Inl notFound) 0 = Inl notFound \<and> isNotFound notFound \<and> \<not> Background 0
   \<and> \<not> EksAddonDeletedTimeout < now initial
   \<and> Target (EksAddonDeleted_stateConf (always (Inl notFound))) = []
   \<and> waitResult (wait_loop Background (EksAddonDeleted_stateConf (always (Inl notFound)))
                   EksAddonDeletedTimeout initial) = None
   \<and> waitError (wait_loop Background (EksAddonDeleted_stateConf (always (Inl notFound)))
                   EksAddonDeletedTimeout initial) = None
   \<and> ClusterDeleted (always (Inl notFound)) 10 = (None, None)
   \<and> FargateProfileDeleted (always (Inl notFound)) 10 = (None, None)
   \<and> NodegroupDeleted (always (Inl notFound)) 10 = (None, None)
   \<and> ClusterCreated (always (Inl notFound)) 10 = (None, Some notFound)
   \<and> ClusterUpdateSuccessful (always (Inl notFound)) 10 = (None, Some notFound)
   \<and> FargateProfileCreated (always (Inl notFound)) 10 = (None, Some notFound)
   \<and> NodegroupCreated (always (Inl notFound)) 10 = (None, Some notFound)
   \<and> NodegroupUpdateSuccessful (always (Inl notFound)) 10 = (None, Some notFound)
   \<and> EksAddonDeleted Background (always (Inl notFound)) = (None, None)
   \<and> EksAddonCreated Background (always (Inl notFound)) = Inr (None, Some notFound)
   \<and> EksAddonUpdateSuccessful Background (always (Inl notFound)) ''c1'' ''vpc-cni'' ''u1''
       = (None, Some notFound)
   \<and> EksAddonDeleted_return None (Some notFound) = (None, None)"
proof -
  have h: "always (Inl notFound) 0 = Inl notFound" "isNotFound notFound" "\<not> Background 0"
    "\<not> Background (now initial)" "\<not> EksAddonDeletedTimeout < now initial"
    "Refresh (EksAddonDeleted_stateConf (always (Inl notFound))) (calls initial) = Inl notFound"
    "Target (EksAddonDeleted_stateConf (always (Inl notFound))) = []"
    by (simp_all add: always_def notFound_def isNotFound_def ErrCodeResourceNotFoundException_def
        Background_def initial_def EksAddonDeleted_stateConf_def)
  from h not_found_is_success_iff_no_targets
    [of Background initial EksAddonDeletedTimeout
        "EksAddonDeleted_stateConf (always (Inl notFound))" notFound "always (Inl notFound)" 10
        "''c1''" "''vpc-cni''" "''u1''" None]
  show ?thesis by simp
qed

text \<open>
  C3, as stated, fails for \<^verbatim>\<open>EksAddonCreated\<close>: "CREATE_FAILED" is a target state of its
  wait, and when the first probe reports it the waiter returns the add-on with a non-nil
  error. (\<^verbatim>\<open>EksAddonUpdateSuccessful\<close>, whose first probe reports "Successful", returns no
  object.)
\<close>

theorem EksAddonCreated_first_probe_counterexample:
  "AddonStatusCreateFailed
     \<in> set (Target (EksAddonCreated_stateConf
                      (always (Inr (AddonObj failedAddon, AddonStatusCreateFailed)))))
   \<and> EksAddonCreated Background (always (Inr (AddonObj failedAddon, AddonStatusCreateFailed)))
     = Inr (Some failedAddon,
            Some (Errorf (''creation not successful (CREATE_FAILED): Errors:'' @ [CHR 0x0A]
                          @ ''Error 1: Code: E1 / Message: boom'' @ [CHR 0x0A]
                          @ ''Error 2: Code: E2 / Message: bad'')))
   \<and> EksAddonUpdateSuccessful Background
        (always (Inr (UpdateObj successfulUpdate, UpdateStatusSuccessful)))
        ''c1'' ''vpc-cni'' ''u1''
     = (None, None)"
proof -
  have n: "Itoa (Suc 0) = ''1''" "Itoa (Suc (Suc 0)) = ''2''"
    by (simp_all add: Itoa.simps digit_def)
  have t: "AddonStatusCreateFailed
     \<in> set (Target (EksAddonCreated_stateConf
                      (always (Inr (AddonObj failedAddon, AddonStatusCreateFailed)))))"
    by (simp add: EksAddonCreated_stateConf_def)
  have w: "WaitForStateContext Background
             (EksAddonCreated_stateConf
                (always (Inr (AddonObj failedAddon, AddonStatusCreateFailed))))
           = \<lparr>waitResult = Some (AddonObj failedAddon), waitError = None, probeLog = [0],
              sleepCount = 0\<rparr>"
    by (rule wait_first_target [where st = AddonStatusCreateFailed])
       (simp_all add: Background_def always_def EksAddonCreated_stateConf_def)
  have r: "EksAddonCreated_return (Some (AddonObj failedAddon)) None
     = Inr (Some failedAddon,
            Some (Errorf (''creation not successful (CREATE_FAILED): Errors:'' @ [CHR 0x0A]
                          @ ''Error 1: Code: E1 / Message: boom'' @ [CHR 0x0A]
                          @ ''Error 2: Code: E2 / Message: bad'')))"
    by (simp add: EksAddonCreated_return_def failedAddon_def twoIssues_def status_defs
        detailedError_def n newline_def)
  have a: "EksAddonCreated Background
             (always (Inr (AddonObj failedAddon, AddonStatusCreateFailed)))
     = Inr (Some failedAddon,
            Some (Errorf (''creation not successful (CREATE_FAILED): Errors:'' @ [CHR 0x0A]
                          @ ''Error 1: Code: E1 / Message: boom'' @ [CHR 0x0A]
                          @ ''Error 2: Code: E2 / Message: bad'')))"
    unfolding EksAddonCreated_def w using r by simp
  have u: "EksAddonUpdateSuccessful Background
        (always (Inr (UpdateObj successfulUpdate, UpdateStatusSuccessful)))
        ''c1'' ''vpc-cni'' ''u1''
     = (None, None)"
    by (rule first_target_EksAddonUpdateSuccessful (1)
          [where v = successfulUpdate and st = UpdateStatusSuccessful])
       (simp_all add: Background_def always_def successfulUpdate_def status_defs)
  from t a u show ?thesis by blast
qed

text \<open>
  C3, amended. When the first probe of a wait returns a target state, the wait itself
  returns at once, after that single probe and without a sleep, with the observed object
  and a nil error. \<^verbatim>\<open>ClusterCreated\<close>, \<^verbatim>\<open>ClusterUpdateSuccessful\<close>,
  \<^verbatim>\<open>FargateProfileCreated\<close>, \<^verbatim>\<open>NodegroupCreated\<close> and \<^verbatim>\<open>NodegroupUpdateSuccessful\<close> return
  that object with a nil error, and so does \<^verbatim>\<open>EksAddonCreated\<close> on "ACTIVE". On
  "CREATE_FAILED" (with a health record) \<^verbatim>\<open>EksAddonCreated\<close> returns the object with a
  non-nil error; \<^verbatim>\<open>EksAddonUpdateSuccessful\<close> returns (nil, nil) on "Successful" and the
  object with a non-nil error on "Cancelled" and "Failed". The delete-style waits have no
  target state.
\<close>

theorem first_probe_target_returns_at_once:
  "(\<not> ctx 0 \<and> Refresh conf 0 = Inr (obj, st) \<and> st \<in> set (Target conf) \<longrightarrow>
      WaitForStateContext ctx conf
        = \<lparr>waitResult = Some obj, waitError = None, probeLog = [0], sleepCount = 0\<rparr>)
   \<and> (rc 0 = Inr (ClusterObj c, ClusterStatusActive) \<longrightarrow>
      ClusterCreated rc timeout = (Some c, None))
   \<and> (ru 0 = Inr (UpdateObj u, UpdateStatusSuccessful) \<longrightarrow>
      ClusterUpdateSuccessful ru timeout = (Some u, None)
      \<and> NodegroupUpdateSuccessful ru timeout = (Some u, None))
   \<and> (rf 0 = Inr (FargateProfileObj f, FargateProfileStatusActive) \<longrightarrow>
      FargateProfileCreated rf timeout = (Some f, None))
   \<and> (rn 0 = Inr (NodegroupObj n, NodegroupStatusActive) \<longrightarrow>
      NodegroupCreated rn timeout = (Some n, None))
   \<and> (\<not> ctx 0 \<and> ra 0 = Inr (AddonObj a, AddonStatusActive)
       \<and> StringValue (addon_Status a) = AddonStatusActive \<longrightarrow>
      EksAddonCreated ctx ra = Inr (Some a, None))
   \<and> (\<not> ctx 0 \<and> rb 0 = Inr (AddonObj b, AddonStatusCreateFailed)
       \<and> StringValue (addon_Status b) = AddonStatusCreateFailed
       \<and> addon_Health b = Some h \<longrightarrow>
      (\<exists>msg. EksAddonCreated ctx rb = Inr (Some b, Some (Errorf msg))))
   \<and> (\<not> ctx 0 \<and> rv 0 = Inr (UpdateObj v, UpdateStatusSuccessful)
       \<and> StringValue (update_Status v) = UpdateStatusSuccessful \<longrightarrow>
      EksAddonUpdateSuccessful ctx rv clusterName addonName updateID = (None, None))
   \<and> (\<not> ctx 0 \<and> rw 0 = Inr (UpdateObj w, sw) \<and> StringValue (update_Status w) = sw
       \<and> (sw = UpdateStatusCancelled \<or> sw = UpdateStatusFailed) \<longrightarrow>
      (\<exists>msg. EksAddonUpdateSuccessful ctx rw clusterName addonName updateID
               = (Some w, Some (Errorf msg))))"
proof -
  have engine: "\<not> ctx 0 \<and> Refresh conf 0 = Inr (obj, st) \<and> st \<in> set (Target conf) \<longrightarrow>
      WaitForStateContext ctx conf
        = \<lparr>waitResult = Some obj, waitError = None, probeLog = [0], sleepCount = 0\<rparr>"
    by (simp add: wait_first_target)
  have cc: "rc 0 = Inr (ClusterObj c, ClusterStatusActive) \<longrightarrow>
      ClusterCreated rc timeout = (Some c, None)"
    by (simp add: first_target_plain_waiters)
  have uu: "ru 0 = Inr (UpdateObj u, UpdateStatusSuccessful) \<longrightarrow>
      ClusterUpdateSuccessful ru timeout = (Some u, None)
      \<and> NodegroupUpdateSuccessful ru timeout = (Some u, None)"
    by (simp add: first_target_plain_waiters)
  have ff: "rf 0 = Inr (FargateProfileObj f, FargateProfileStatusActive) \<longrightarrow>
      FargateProfileCreated rf timeout = (Some f, None)"
    by (simp add: first_target_plain_waiters)
  have nn: "rn 0 = Inr (NodegroupObj n, NodegroupStatusActive) \<longrightarrow>
      NodegroupCreated rn timeout = (Some n, None)"
    by (simp add: first_target_plain_waiters)
  have aa: "\<not> ctx 0 \<and> ra 0 = Inr (AddonObj a, AddonStatusActive)
       \<and> StringValue (addon_Status a) = AddonStatusActive \<longrightarrow>
      EksAddonCreated ctx ra = Inr (Some a, None)"
    using first_target_EksAddonCreated (1) [of ctx ra a AddonStatusActive] by blast
  have bb: "\<not> ctx 0 \<and> rb 0 = Inr (AddonObj b, AddonStatusCreateFailed)
       \<and> StringValue (addon_Status b) = AddonStatusCreateFailed
       \<and> addon_Health b = Some h \<longrightarrow>
      (\<exists>msg. EksAddonCreated ctx rb = Inr (Some b, Some (Errorf msg)))"
    using first_target_EksAddonCreated (2) [of ctx rb b AddonStatusCreateFailed h] by blast
  have vv: "\<not> ctx 0 \<and> rv 0 = Inr (UpdateObj v, UpdateStatusSuccessful)
       \<and> StringValue (update_Status v) = UpdateStatusSuccessful \<longrightarrow>
      EksAddonUpdateSuccessful ctx rv clusterName addonName updateID = (None, None)"
    using first_target_EksAddonUpdateSuccessful (1) [of ctx rv v UpdateStatusSuccessful]
    by blast
  have ww: "\<not> ctx 0 \<and> rw 0 = Inr (UpdateObj w, sw) \<and> StringValue (update_Status w) = sw
       \<and> (sw = UpdateStatusCancelled \<or> sw = UpdateStatusFailed) \<longrightarrow>
      (\<exists>msg. EksAddonUpdateSuccessful ctx rw clusterName addonName updateID
               = (Some w, Some (Errorf msg)))"
    using first_target_EksAddonUpdateSuccessful (2) [of ctx rw w sw] by blast
  show ?thesis
    by (intro conjI) (rule engine, rule cc, rule uu, rule ff, rule nn, rule aa, rule bb,
        rule vv, rule ww)
qed

theorem first_probe_target_returns_at_once_witness:
  "\<not> Background 0
   \<and> Refresh (ClusterCreated_stateConf (always (Inr (ClusterObj activeCluster, ''ACTIVE''))) 10) 0
       = Inr (ClusterObj activeCluster, ''ACTIVE'')
   \<and> ''ACTIVE''
       \<in> set (Target (ClusterCreated_stateConf
                        (always (Inr (ClusterObj activeCluster, ''ACTIVE''))) 10))
   \<and> WaitForStateContext Background
        (ClusterCreated_stateConf (always (Inr (ClusterObj activeCluster, ''ACTIVE''))) 10)
       = \<lparr>waitResult = Some (ClusterObj activeCluster), waitError = None, probeLog = [0],
          sleepCount = 0\<rparr>
   \<and> ClusterCreated (always (Inr (ClusterObj activeCluster, ''ACTIVE''))) 10
       = (Some activeCluster, None)
   \<and> ClusterUpdateSuccessful (always (Inr (UpdateObj successfulUpdate, ''Successful''))) 10
       = (Some successfulUpdate, None)
   \<and> NodegroupUpdateSuccessful (always (Inr (UpdateObj successfulUpdate, ''Successful''))) 10
       = (Some successfulUpdate, None)
   \<and> FargateProfileCreated (always (Inr (FargateProfileObj activeFargateProfile, ''ACTIVE''))) 10
       = (Some activeFargateProfile, None)
   \<and> NodegroupCreated (always (Inr (NodegroupObj activeNodegroup, ''ACTIVE''))) 10
       = (Some activeNodegroup, None)
   \<and> EksAddonCreated Background (always (Inr (AddonObj activeAddon, ''ACTIVE'')))
       = Inr (Some activeAddon, None)
   \<and> (\<exists>msg. EksAddonCreated Background (always (Inr (AddonObj failedAddon, ''CREATE_FAILED'')))
               = Inr (Some failedAddon, Some (Errorf msg)))
   \<and> EksAddonUpdateSuccessful Background
        (always (Inr (UpdateObj successfulUpdate, ''Successful''))) ''c1'' ''vpc-cni'' ''u1''
       = (None, None)
   \<and> (\<exists>msg. EksAddonUpdateSuccessful Background
               (always (Inr (UpdateObj failedUpdate, ''Failed''))) ''c1'' ''vpc-cni'' ''u1''
               = (Some failedUpdate, Some (Errorf msg)))"
proof -
  have h: "\<not> Background 0"
    "Refresh (ClusterCreated_stateConf (always (Inr (ClusterObj activeCluster, ''ACTIVE''))) 10) 0
       = Inr (ClusterObj activeCluster, ''ACTIVE'')"
    "''ACTIVE''
       \<in> set (Target (ClusterCreated_stateConf
                        (always (Inr (ClusterObj activeCluster, ''ACTIVE''))) 10))"
    "always (Inr (ClusterObj activeCluster, ''ACTIVE'')) 0
       = Inr (ClusterObj activeCluster, ClusterStatusActive)"
    "always (Inr (UpdateObj successfulUpdate, ''Successful'')) 0
       = Inr (UpdateObj successfulUpdate, UpdateStatusSuccessful)"
    "always (Inr (FargateProfileObj activeFargateProfile, ''ACTIVE'')) 0
       = Inr (FargateProfileObj activeFargateProfile, FargateProfileStatusActive)"
    "always (Inr (NodegroupObj activeNodegroup, ''ACTIVE'')) 0
       = Inr (NodegroupObj activeNodegroup, NodegroupStatusActive)"
    "always (Inr (AddonObj activeAddon, ''ACTIVE'')) 0
       = Inr (AddonObj activeAddon, AddonStatusActive)"
    "StringValue (addon_Status activeAddon) = AddonStatusActive"
    "always (Inr (AddonObj failedAddon, ''CREATE_FAILED'')) 0
       = Inr (AddonObj failedAddon, AddonStatusCreateFailed)"
    "StringValue (addon_Status failedAddon) = AddonStatusCreateFailed"
    "addon_Health failedAddon = Some \<lparr>Issues = twoIssues\<rparr>"
    "StringValue (update_Status successfulUpdate) = UpdateStatusSuccessful"
    "always (Inr (UpdateObj failedUpdate, ''Failed'')) 0 = Inr (UpdateObj failedUpdate, ''Failed'')"
    "StringValue (update_Status failedUpdate) = ''Failed''"
    "''Failed'' = UpdateStatusCancelled \<or> ''Failed'' = UpdateStatusFailed"
    by (simp_all add: Background_def always_def ClusterCreated_stateConf_def status_defs
        activeAddon_def failedAddon_def successfulUpdate_def failedUpdate_def)
  from h first_probe_target_returns_at_once
    [where ctx = Background
       and conf = "ClusterCreated_stateConf (always (Inr (ClusterObj activeCluster, ''ACTIVE''))) 10"
       and obj = "ClusterObj activeCluster" and st = "''ACTIVE''"
       and rc = "always (Inr (ClusterObj activeCluster, ''ACTIVE''))" and c = activeCluster
       and timeout = 10
       and ru = "always (Inr (UpdateObj successfulUpdate, ''Successful''))"
       and u = successfulUpdate
       and rf = "always (Inr (FargateProfileObj activeFargateProfile, ''ACTIVE''))"
       and f = activeFargateProfile
       and rn = "always (Inr (NodegroupObj activeNodegroup, ''ACTIVE''))"
       and n = activeNodegroup
       and ra = "always (Inr (AddonObj activeAddon, ''ACTIVE''))" and a = activeAddon
       and rb = "always (Inr (AddonObj failedAddon, ''CREATE_FAILED''))" and b = failedAddon
       and h = "\<lparr>Issues = twoIssues\<rparr>"
       and rv = "always (Inr (UpdateObj successfulUpdate, ''Successful''))"
       and v = successfulUpdate
       and rw = "always (Inr (UpdateObj failedUpdate, ''Failed''))" and w = failedUpdate
       and sw = "''Failed''"
       and clusterName = "''c1''" and addonName = "''vpc-cni''" and updateID = "''u1''"]
  show ?thesis by blast
qed

text \<open>
  C6, as stated, fails for the waiters that take no context: \<^verbatim>\<open>ClusterCreated\<close> calls
  \<^verbatim>\<open>WaitForState\<close>, which has no cancellation signal to observe. With a signal that is done
  from time 1 on, the wait of the same configuration under that signal stops after its
  first probe with the cancellation error, whereas \<^verbatim>\<open>ClusterCreated\<close> probes again at
  time 1 and returns the cluster with a nil error.
\<close>

theorem ClusterCreated_cancellation_counterexample:
  "WaitForStateContext (cancelledFrom 1)
     (ClusterCreated_stateConf
        (firstThen (Inr (ClusterObj creatingCluster, ''CREATING''))
                   (Inr (ClusterObj activeCluster, ''ACTIVE''))) 10)
     = \<lparr>waitResult = None, waitError = Some CancellationError, probeLog = [0],
        sleepCount = 1\<rparr>
   \<and> WaitForState
       (ClusterCreated_stateConf
          (firstThen (Inr (ClusterObj creatingCluster, ''CREATING''))
                     (Inr (ClusterObj activeCluster, ''ACTIVE''))) 10)
     = \<lparr>waitResult = Some (ClusterObj activeCluster), waitError = None, probeLog = [0, 1],
        sleepCount = 1\<rparr>
   \<and> ClusterCreated
       (firstThen (Inr (ClusterObj creatingCluster, ''CREATING''))
                  (Inr (ClusterObj activeCluster, ''ACTIVE''))) 10
     = (Some activeCluster, None)"
  by code_simp

text \<open>
  C6, amended. The waiters that take a context (\<^verbatim>\<open>EksAddonCreated\<close>, \<^verbatim>\<open>EksAddonDeleted\<close>,
  \<^verbatim>\<open>EksAddonUpdateSuccessful\<close>) support cooperative cancellation: an iteration of the wait
  that begins when the signal is done stops with the cancellation error, which is not a
  timeout error, and issues no probe; every probe of a wait is issued at a time when the
  signal is not done; and a wait that ends with the cancellation error makes the waiter
  return (nil, cancellation error). The waiters without a context argument run their wait
  under the background context and never produce a cancellation outcome of their own
  (only a probe that itself fails with that error could).
\<close>

theorem context_waiters_cancellation:
  "(ctx (now s) \<longrightarrow>
      wait_loop ctx conf deadline s
        = \<lparr>waitResult = None, waitError = Some CancellationError, probeLog = probed s,
           sleepCount = slept s\<rparr>)
   \<and> (\<forall>t \<in> set (probeLog (WaitForStateContext ctx conf)). \<not> ctx t)
   \<and> CancellationError \<noteq> TimeoutError lastError lastSt expected
   \<and> (waitError (WaitForStateContext ctx (EksAddonCreated_stateConf refresh))
        = Some CancellationError \<longrightarrow>
      EksAddonCreated ctx refresh = Inr (None, Some CancellationError))
   \<and> (waitError (WaitForStateContext ctx (EksAddonDeleted_stateConf refresh))
        = Some CancellationError \<longrightarrow>
      EksAddonDeleted ctx refresh = (None, Some CancellationError))
   \<and> (waitError (WaitForStateContext ctx (EksAddonUpdateSuccessful_stateConf refresh))
        = Some CancellationError \<longrightarrow>
      EksAddonUpdateSuccessful ctx refresh clusterName addonName updateID
        = (None, Some CancellationError))
   \<and> ((\<forall>k. Refresh conf' k \<noteq> Inl CancellationError) \<longrightarrow>
      waitError (WaitForState conf') \<noteq> Some CancellationError)"
proof -
  have a: "ctx (now s) \<longrightarrow>
      wait_loop ctx conf deadline s
        = \<lparr>waitResult = None, waitError = Some CancellationError, probeLog = probed s,
           sleepCount = slept s\<rparr>"
    by (simp add: wait_loop_cancelled stop_def)
  have b: "\<forall>t \<in> set (probeLog (WaitForStateContext ctx conf)). \<not> ctx t"
    unfolding WaitForStateContext_def
    by (rule probes_not_cancelled_loop) (simp add: initial_def)
  have c: "CancellationError \<noteq> TimeoutError lastError lastSt expected"
    by simp
  have d: "waitError (WaitForStateContext ctx (EksAddonCreated_stateConf refresh))
        = Some CancellationError \<longrightarrow>
      EksAddonCreated ctx refresh = Inr (None, Some CancellationError)"
    by (simp add: cancelled_addon_waiters)
  have e: "waitError (WaitForStateContext ctx (EksAddonDeleted_stateConf refresh))
        = Some CancellationError \<longrightarrow>
      EksAddonDeleted ctx refresh = (None, Some CancellationError)"
    by (simp add: cancelled_addon_waiters)
  have f: "waitError (WaitForStateContext ctx (EksAddonUpdateSuccessful_stateConf refresh))
        = Some CancellationError \<longrightarrow>
      EksAddonUpdateSuccessful ctx refresh clusterName addonName updateID
        = (None, Some CancellationError)"
    by (simp add: cancelled_addon_waiters)
  have g: "(\<forall>k. Refresh conf' k \<noteq> Inl CancellationError) \<longrightarrow>
      waitError (WaitForState conf') \<noteq> Some CancellationError"
    by (simp add: WaitForState_def WaitForStateContext_def background_never_cancels)
  show ?thesis
    by (intro conjI) (rule a, rule b, rule c, rule d, rule e, rule f, rule g)
qed

theorem context_waiters_cancellation_witness:
  "cancelledFrom 1 (now (initial\<lparr>now := 1, calls := 1, slept := 1, probed := [0]\<rparr>))
   \<and> wait_loop (cancelledFrom 1)
        (EksAddonCreated_stateConf (always (Inr (AddonObj creatingAddon, ''CREATING''))))
        EksAddonCreatedTimeout (initial\<lparr>now := 1, calls := 1, slept := 1, probed := [0]\<rparr>)
       = \<lparr>waitResult = None, waitError = Some CancellationError, probeLog = [0],
          sleepCount = 1\<rparr>
   \<and> probeLog (WaitForStateContext (cancelledFrom 1)
                  (EksAddonCreated_stateConf (always (Inr (AddonObj creatingAddon, ''CREATING'')))))
       = [0]
   \<and> \<not> cancelledFrom 1 0
   \<and> waitError (WaitForStateContext (cancelledFrom 1)
                  (EksAddonCreated_stateConf (always (Inr (AddonObj creatingAddon, ''CREATING'')))))
       = Some CancellationError
   \<and> waitError (WaitForStateContext (cancelledFrom 1)
                  (EksAddonDeleted_stateConf (always (Inr (AddonObj creatingAddon, ''DELETING'')))))
       = Some CancellationError
   \<and> waitError (WaitForStateContext (cancelledFrom 1)
                  (EksAddonUpdateSuccessful_stateConf
                     (always (Inr (UpdateObj successfulUpdate, ''InProgress'')))))
       = Some CancellationError
   \<and> EksAddonCreated (cancelledFrom 1) (always (Inr (AddonObj creatingAddon, ''CREATING'')))
       = Inr (None, Some CancellationError)
   \<and> EksAddonDeleted (cancelledFrom 1) (always (Inr (AddonObj creatingAddon, ''DELETING'')))
       = (None, Some CancellationError)
   \<and> EksAddonUpdateSuccessful (cancelledFrom 1)
        (always (Inr (UpdateObj successfulUpdate, ''InProgress''))) ''c1'' ''vpc-cni'' ''u1''
       = (None, Some CancellationError)
   \<and> waitError (WaitForState
                  (ClusterCreated_stateConf
                     (always (Inr (ClusterObj creatingCluster, ''CREATING''))) 3))
       = Some (TimeoutError None ''CREATING'' [''ACTIVE''])"
proof -
  have h1: "cancelledFrom 1 (now (initial\<lparr>now := 1, calls := 1, slept := 1, probed := [0]\<rparr>))"
    by (simp add: cancelledFrom_def)
  have p: "probeLog (WaitForStateContext (cancelledFrom 1)
                  (EksAddonCreated_stateConf (always (Inr (AddonObj creatingAddon, ''CREATING'')))))
       = [0]"
    by code_simp
  have n0: "\<not> cancelledFrom 1 0"
    using context_waiters_cancellation
      [where ctx = "cancelledFrom 1"
         and conf = "EksAddonCreated_stateConf (always (Inr (AddonObj creatingAddon, ''CREATING'')))"]
    unfolding p by simp
  have w: "waitError (WaitForStateContext (cancelledFrom 1)
                  (EksAddonCreated_stateConf (always (Inr (AddonObj creatingAddon, ''CREATING'')))))
       = Some CancellationError"
    "waitError (WaitForStateContext (cancelledFrom 1)
                  (EksAddonDeleted_stateConf (always (Inr (AddonObj creatingAddon, ''DELETING'')))))
       = Some CancellationError"
    "waitError (WaitForStateContext (cancelledFrom 1)
                  (EksAddonUpdateSuccessful_stateConf
                     (always (Inr (UpdateObj successfulUpdate, ''InProgress'')))))
       = Some CancellationError"
    by code_simp+
  have t: "waitError (WaitForState
                  (ClusterCreated_stateConf
                     (always (Inr (ClusterObj creatingCluster, ''CREATING''))) 3))
       = Some (TimeoutError None ''CREATING'' [''ACTIVE''])"
    by code_simp
  have s: "probed (initial\<lparr>now := 1, calls := 1, slept := 1, probed := [0]\<rparr>) = [0]"
    "slept (initial\<lparr>now := 1, calls := 1, slept := 1, probed := [0]\<rparr>) = 1"
    by simp_all
  from h1 context_waiters_cancellation
      [where ctx = "cancelledFrom 1"
         and s = "initial\<lparr>now := 1, calls := 1, slept := 1, probed := [0]\<rparr>"
         and conf = "EksAddonCreated_stateConf (always (Inr (AddonObj creatingAddon, ''CREATING'')))"
         and deadline = EksAddonCreatedTimeout]
  have l: "wait_loop (cancelledFrom 1)
        (EksAddonCreated_stateConf (always (Inr (AddonObj creatingAddon, ''CREATING''))))
        EksAddonCreatedTimeout (initial\<lparr>now := 1, calls := 1, slept := 1, probed := [0]\<rparr>)
       = \<lparr>waitResult = None, waitError = Some CancellationError, probeLog = [0],
          sleepCount = 1\<rparr>"
    unfolding s by blast
  from w(1) context_waiters_cancellation
      [where ctx = "cancelledFrom 1"
         and refresh = "always (Inr (AddonObj creatingAddon, ''CREATING''))"]
  have r1: "EksAddonCreated (cancelledFrom 1) (always (Inr (AddonObj creatingAddon, ''CREATING'')))
       = Inr (None, Some CancellationError)"
    by blast
  from w(2) context_waiters_cancellation
      [where ctx = "cancelledFrom 1"
         and refresh = "always (Inr (AddonObj creatingAddon, ''DELETING''))"]
  have r2: "EksAddonDeleted (cancelledFrom 1) (always (Inr (AddonObj creatingAddon, ''DELETING'')))
       = (None, Some CancellationError)"
    by blast
  from w(3) context_waiters_cancellation
      [where ctx = "cancelledFrom 1"
         and refresh = "always (Inr (UpdateObj successfulUpdate, ''InProgress''))"
         and clusterName = "''c1''" and addonName = "''vpc-cni''" and updateID = "''u1''"]
  have r3: "EksAddonUpdateSuccessful (cancelledFrom 1)
        (always (Inr (UpdateObj successfulUpdate, ''InProgress''))) ''c1'' ''vpc-cni'' ''u1''
       = (None, Some CancellationError)"
    by blast
  from h1 l p n0 w r1 r2 r3 t show ?thesis by blast
qed

end
